theory Spec2Isabelle
  imports Main "HOL-Library.Log_Nat" "HOL-Library.Multiset"
begin

section \<open>Python floats (IEEE 754 binary64)\<close>

text \<open>
  Every numeric field of a reading is a Python \<open>float\<close>. A float is modelled by the
  rational number it denotes, or one of the three special values. The two zeros are
  identified (Python's \<open>==\<close> and truth test do not tell them apart). Arithmetic is the
  exact operation followed by rounding to the nearest binary64 value, ties to the even
  mantissa, with gradual underflow and overflow to infinity. Equality of two modelled
  floats is identity of their values.
\<close>

datatype pyfloat = Fin rat | PInf | NInf | NaN

definition round_even :: "rat \<Rightarrow> int" where
  "round_even x =
     (let f = \<lfloor>x\<rfloor>; d = x - of_int f
      in if d < 1 / 2 then f
         else if 1 / 2 < d then f + 1
         else if even f then f else f + 1)"

definition ilog2 :: "rat \<Rightarrow> int" where
  \<comment> \<open>for \<open>0 < a\<close>: the exponent \<open>e\<close> with \<open>2 ^ e \<le> a < 2 ^ (e + 1)\<close>\<close>
  "ilog2 a = (if 1 \<le> a then bitlen \<lfloor>a\<rfloor> - 1 else - bitlen (\<lceil>1 / a\<rceil> - 1))"

definition pow2 :: "int \<Rightarrow> rat" where
  "pow2 e = (if 0 \<le> e then 2 ^ nat e else 1 / 2 ^ nat (- e))"

definition fl :: "rat \<Rightarrow> pyfloat" where
  \<comment> \<open>binary64 rounding: 53 bits of precision, least normal exponent \<open>-1022\<close>; the
    rounded value \<open>m * 2 ^ (e - 52)\<close> overflows when it reaches \<open>2 ^ 1024\<close>\<close>
  "fl q =
     (if q = 0 then Fin 0
      else
        let a = \<bar>q\<bar>;
            e = max (ilog2 a) (- 1022);
            u = pow2 (e - 52);
            m = round_even (a / u)
        in if 1024 \<le> e \<or> (e = 1023 \<and> m = 2 ^ 53) then (if 0 < q then PInf else NInf)
           else Fin (if 0 < q then of_int m * u else - (of_int m * u)))"

fun fmul :: "pyfloat \<Rightarrow> pyfloat \<Rightarrow> pyfloat" where
  "fmul NaN _ = NaN"
| "fmul _ NaN = NaN"
| "fmul (Fin a) (Fin b) = fl (a * b)"
| "fmul (Fin a) PInf = (if a = 0 then NaN else if 0 < a then PInf else NInf)"
| "fmul (Fin a) NInf = (if a = 0 then NaN else if 0 < a then NInf else PInf)"
| "fmul PInf (Fin b) = (if b = 0 then NaN else if 0 < b then PInf else NInf)"
| "fmul NInf (Fin b) = (if b = 0 then NaN else if 0 < b then NInf else PInf)"
| "fmul PInf PInf = PInf"
| "fmul PInf NInf = NInf"
| "fmul NInf PInf = NInf"
| "fmul NInf NInf = PInf"

fun fadd :: "pyfloat \<Rightarrow> pyfloat \<Rightarrow> pyfloat" where
  "fadd NaN _ = NaN"
| "fadd _ NaN = NaN"
| "fadd (Fin a) (Fin b) = fl (a + b)"
| "fadd (Fin a) PInf = PInf"
| "fadd (Fin a) NInf = NInf"
| "fadd PInf (Fin b) = PInf"
| "fadd NInf (Fin b) = NInf"
| "fadd PInf PInf = PInf"
| "fadd PInf NInf = NaN"
| "fadd NInf PInf = NaN"
| "fadd NInf NInf = NInf"

definition py_sum :: "pyfloat list \<Rightarrow> pyfloat" where
  \<comment> \<open>the builtin \<open>sum\<close>: starts from the integer 0 and adds from the left, each
    addition rounded (Python 3.12 and later compensate the rounding error of the sum;
    no property below depends on the sum of two or more values)\<close>
  "py_sum vs = foldl fadd (Fin 0) vs"

definition truthy :: "pyfloat \<Rightarrow> bool" where
  \<comment> \<open>\<open>if x:\<close> on a float is \<open>x != 0.0\<close>; NaN and the infinities are true\<close>
  "truthy x = (x \<noteq> Fin 0)"


section \<open>Strings and integer parsing\<close>

text \<open>
  A string is a list of characters, each a code point below 256 (code points from 256
  on do not occur in the names of the feed and are not modelled). The helpers follow
  Python's \<open>str.startswith\<close>, \<open>str.endswith\<close>, \<open>str.split(sep)\<close>, \<open>str.split()\<close>
  and \<open>int(str)\<close> on such strings. The two notions of whitespace differ: \<open>str.split()\<close>
  splits at the characters for which \<open>str.isspace\<close> holds, while \<open>int\<close> skips the C
  whitespace and the two non-ASCII spaces only, so that \<open>int\<close> raises on a string
  that starts with one of the separators \<open>0x1C\<close> to \<open>0x1F\<close>.
\<close>

definition startswith :: "string \<Rightarrow> string \<Rightarrow> bool" where
  "startswith s p = (take (length p) s = p)"

definition endswith :: "string \<Rightarrow> string \<Rightarrow> bool" where
  "endswith s p = (length p \<le> length s \<and> drop (length s - length p) s = p)"

fun split_on :: "char \<Rightarrow> string \<Rightarrow> string list" where
  "split_on sep [] = [[]]"
| "split_on sep (x # xs) =
     (if x = sep then [] # split_on sep xs
      else (case split_on sep xs of
              [] \<Rightarrow> [[x]]
            | w # ws \<Rightarrow> (x # w) # ws))"

definition is_space :: "char \<Rightarrow> bool" where
  \<comment> \<open>\<open>str.isspace\<close>, the whitespace of \<open>str.split()\<close>: tab to carriage return, the
    separators \<open>0x1C\<close> to \<open>0x1F\<close>, the space, \<open>0x85\<close> and \<open>0xA0\<close>\<close>
  "is_space c =
     (let n = (of_char c :: nat)
      in (9 \<le> n \<and> n \<le> 13) \<or> (28 \<le> n \<and> n \<le> 32) \<or> n = 133 \<or> n = 160)"

fun split_ws :: "string \<Rightarrow> string list" where
  "split_ws [] = []"
| "split_ws (x # xs) =
     (if is_space x then split_ws xs
      else (case xs of
              [] \<Rightarrow> [[x]]
            | y # _ \<Rightarrow>
                if is_space y then [x] # split_ws xs
                else (case split_ws xs of
                        [] \<Rightarrow> [[x]]
                      | w # ws \<Rightarrow> (x # w) # ws)))"

definition is_int_space :: "char \<Rightarrow> bool" where
  \<comment> \<open>the whitespace \<open>int\<close> skips at both ends: tab to carriage return, the space,
    \<open>0x85\<close> and \<open>0xA0\<close>\<close>
  "is_int_space c =
     (let n = (of_char c :: nat) in (9 \<le> n \<and> n \<le> 13) \<or> n = 32 \<or> n = 133 \<or> n = 160)"

definition strip :: "string \<Rightarrow> string" where
  "strip s = rev (dropWhile is_int_space (rev (dropWhile is_int_space s)))"

definition is_digit :: "char \<Rightarrow> bool" where
  "is_digit c = (let n = (of_char c :: nat) in 48 \<le> n \<and> n \<le> 57)"

definition digit_val :: "char \<Rightarrow> int" where
  "digit_val c = int (of_char c) - 48"

fun digits_ok :: "string \<Rightarrow> bool" where
  \<comment> \<open>decimal digits, single underscores allowed between two digits only\<close>
  "digits_ok [] = False"
| "digits_ok [c] = is_digit c"
| "digits_ok (c # d # cs) =
     (if is_digit c then
        (if d = CHR ''_'' then (case cs of [] \<Rightarrow> False | e # _ \<Rightarrow> is_digit e \<and> digits_ok cs)
         else digits_ok (d # cs))
      else False)"

definition digits_value :: "string \<Rightarrow> int" where
  "digits_value s = foldl (\<lambda>acc c. 10 * acc + digit_val c) 0 (filter is_digit s)"

definition max_str_digits :: nat where
  \<comment> \<open>the interpreter's default limit on the digits of a decimal string (Python 3.11
    and the security releases 3.7.14, 3.8.14, 3.9.14, 3.10.7)\<close>
  "max_str_digits = 4300"

definition int_digits :: "string \<Rightarrow> int option" where
  \<comment> \<open>the number after the sign; the limit counts the digits, not the underscores\<close>
  "int_digits s =
     (if digits_ok s \<and> length (filter is_digit s) \<le> max_str_digits
      then Some (digits_value s) else None)"

definition py_int :: "string \<Rightarrow> int option" where
  \<comment> \<open>\<open>int(s)\<close>; \<open>None\<close> stands for the \<open>ValueError\<close>\<close>
  "py_int s =
     (case strip s of
        [] \<Rightarrow> None
      | c # cs \<Rightarrow>
          if c = CHR ''-'' then map_option uminus (int_digits cs)
          else if c = CHR ''+'' then int_digits cs
          else int_digits (c # cs))"

definition nth_opt :: "'a list \<Rightarrow> nat \<Rightarrow> 'a option" where
  \<comment> \<open>indexing with a non-negative index; \<open>None\<close> stands for the \<open>IndexError\<close>\<close>
  "nth_opt xs i = (if i < length xs then Some (xs ! i) else None)"


section \<open>The parsed table\<close>

text \<open>
  \<open>pd.read_csv\<close> is an external library: its result, the table, is the input of the
  parser. A cell is classified by what the three operations the parser applies to it
  (\<open>pd.notna\<close>, \<open>float\<close>, \<open>str\<close>) do with it: a float cell (a missing value is
  the float NaN), an integer cell, a string cell that \<open>float\<close> accepts (with the value
  \<open>float\<close> returns) and a string cell that \<open>float\<close> rejects. A row maps each column
  name to its cell; \<open>pandas\<close> gives every row a cell for every column, and a row without
  one makes \<open>row[c]\<close> raise \<open>KeyError\<close> here. \<open>LibraryError\<close> stands for any
  exception raised inside \<open>pandas\<close>, \<open>ftplib\<close> or \<open>sqlite3\<close>, with its message.
\<close>

datatype exn = IndexError | ValueError | KeyError | LibraryError string

datatype cell = Num pyfloat | IntCell int | NumText string pyfloat | Text string

datatype pystr = Chars string | FloatRepr pyfloat | IntRepr int

fun py_notna :: "cell \<Rightarrow> bool" where
  "py_notna (Num v) = (v \<noteq> NaN)"
| "py_notna (IntCell i) = True"
| "py_notna (NumText s v) = True"
| "py_notna (Text s) = True"

fun py_float :: "cell \<Rightarrow> exn + pyfloat" where
  "py_float (Num v) = Inr v"
| "py_float (IntCell i) = Inr (fl (of_int i))"
| "py_float (NumText s v) = Inr v"
| "py_float (Text s) = Inl ValueError"

fun py_str :: "cell \<Rightarrow> pystr" where
  "py_str (Num v) = FloatRepr v"
| "py_str (IntCell i) = IntRepr i"
| "py_str (NumText s v) = Chars s"
| "py_str (Text s) = Chars s"

record dataframe =
  columns :: "string list"
  rows :: "(string \<rightharpoonup> cell) list"

definition iloc_last :: "dataframe \<Rightarrow> exn + (string \<rightharpoonup> cell)" where
  \<comment> \<open>\<open>df.iloc[-1]\<close>\<close>
  "iloc_last df = (if rows df = [] then Inl IndexError else Inr (last (rows df)))"

section \<open>Readings\<close>

record datetime =
  dt_day :: int
  dt_hour :: nat
  dt_minute :: nat
  dt_second :: nat
  dt_microsecond :: nat

datatype axis = Idx nat | At datetime

record curve =
  curve_hours :: "axis list"
  curve_values :: "pyfloat list"

record reading =
  live_power :: pyfloat
  energy_today :: pyfloat
  ac_power :: pyfloat
  dc_power :: pyfloat
  efficiency :: pyfloat
  uv_index :: pyfloat
  total_energy :: pyfloat
  system_temp :: pyfloat
  co2_avoided :: pyfloat
  ambient_temp :: pyfloat
  production_curve :: curve
  data_timestamp :: "pystr option"
  data_source :: "string option"

text \<open>The last two keys are absent (\<open>None\<close>) from the dictionary returned on a parse error.\<close>

section \<open>The parser of \<open>fetch_pv_data\<close>\<close>

definition is_prod_col :: "string \<Rightarrow> bool" where
  "is_prod_col c = (startswith c ''energy_ptot_'' \<and> endswith c ''_kWh'')"

definition ptot_try :: "string \<Rightarrow> int option" where
  \<comment> \<open>the \<open>try\<close> body \<open>int(col.split('_')[2])\<close>; \<open>None\<close> when it raises\<close>
  "ptot_try col =
     (case nth_opt (split_on (CHR ''_'') col) 2 of
        None \<Rightarrow> None
      | Some tok \<Rightarrow> py_int tok)"

definition ptot_index :: "string \<Rightarrow> int" where
  \<comment> \<open>\<open>_ptot_index\<close>: any exception of the body is replaced by \<open>10**9\<close>\<close>
  "ptot_index col = (case ptot_try col of None \<Rightarrow> 10 ^ 9 | Some n \<Rightarrow> n)"

definition prod_cols :: "dataframe \<Rightarrow> string list" where
  \<comment> \<open>the per-point columns, after \<open>sorted(prod_cols, key=_ptot_index)\<close>\<close>
  "prod_cols df = sort_key ptot_index (filter is_prod_col (columns df))"

fun production_values :: "(string \<rightharpoonup> cell) \<Rightarrow> string list \<Rightarrow> exn + pyfloat list" where
  \<comment> \<open>\<open>[float(row[c]) for c in prod_cols if pd.notna(row[c])]\<close>\<close>
  "production_values row [] = Inr []"
| "production_values row (c # cs) =
     (case row c of
        None \<Rightarrow> Inl KeyError
      | Some x \<Rightarrow>
          if py_notna x then
            (case py_float x of
               Inl e \<Rightarrow> Inl e
             | Inr v \<Rightarrow>
                 (case production_values row cs of
                    Inl e \<Rightarrow> Inl e
                  | Inr vs \<Rightarrow> Inr (v # vs)))
          else production_values row cs)"

definition row_get_float :: "(string \<rightharpoonup> cell) \<Rightarrow> string \<Rightarrow> pyfloat \<Rightarrow> exn + pyfloat" where
  \<comment> \<open>\<open>float(row.get(key, default))\<close>\<close>
  "row_get_float row key dflt = (case row key of None \<Rightarrow> Inr dflt | Some x \<Rightarrow> py_float x)"

definition float_0_92 :: pyfloat where
  \<comment> \<open>the literal \<open>0.92\<close>\<close>
  "float_0_92 = fl (92 / 100)"

definition float_1_02 :: pyfloat where
  \<comment> \<open>the literal \<open>1.02\<close>\<close>
  "float_1_02 = fl (102 / 100)"

definition float_0_366 :: pyfloat where
  \<comment> \<open>the literal \<open>0.366\<close>\<close>
  "float_0_366 = fl (366 / 1000)"

definition parse_row :: "dataframe \<Rightarrow> (string \<rightharpoonup> cell) \<Rightarrow> exn + reading" where
  "parse_row df row =
     (case production_values row (prod_cols df) of
        Inl e \<Rightarrow> Inl e
      | Inr vs \<Rightarrow>
          let live = (if vs \<noteq> [] then last vs else Fin 0) in
          (case row_get_float row ''total_energy_kWh'' (py_sum vs) of
             Inl e \<Rightarrow> Inl e
           | Inr today \<Rightarrow>
               (case row_get_float row ''total_energy_kWh'' (Fin 0) of
                  Inl e \<Rightarrow> Inl e
                | Inr tot \<Rightarrow>
                    Inr \<lparr> live_power = live,
                          energy_today = today,
                          ac_power = (if truthy live then fmul live float_0_92 else Fin 0),
                          dc_power = (if truthy live then fmul live float_1_02 else Fin 0),
                          efficiency = Fin 92,
                          uv_index = Fin 0,
                          total_energy = tot,
                          system_temp = Fin 0,
                          co2_avoided = fmul tot float_0_366,
                          ambient_temp = Fin 0,
                          production_curve =
                            \<lparr> curve_hours = map Idx [0..<length vs], curve_values = vs \<rparr>,
                          data_timestamp =
                            Some (case row ''timestamp'' of None \<Rightarrow> Chars [] | Some x \<Rightarrow> py_str x),
                          data_source = Some ''live'' \<rparr>)))"

definition parse_snapshot :: "exn + dataframe \<Rightarrow> exn + reading" where
  \<comment> \<open>the body of the \<open>try\<close> block up to the call of \<open>log_data\<close>; the argument is what
    \<open>pd.read_csv\<close> returned or raised\<close>
  "parse_snapshot csv =
     (case csv of
        Inl e \<Rightarrow> Inl e
      | Inr df \<Rightarrow> (case iloc_last df of Inl e \<Rightarrow> Inl e | Inr row \<Rightarrow> parse_row df row))"

definition fallback_reading :: "(nat \<Rightarrow> datetime) \<Rightarrow> reading" where
  \<comment> \<open>the dictionary of the \<open>except\<close> branch; \<open>now k\<close> is the k-th reading of the clock;
    the integers \<open>0\<close> of the curve are written as the float zero they are equal to\<close>
  "fallback_reading now =
     \<lparr> live_power = Fin 0, energy_today = Fin 0, ac_power = Fin 0, dc_power = Fin 0,
       efficiency = Fin 0, uv_index = Fin 0, total_energy = Fin 0, system_temp = Fin 0,
       co2_avoided = Fin 0, ambient_temp = Fin 0,
       production_curve =
         \<lparr> curve_hours =
             map (\<lambda>h. At ((now h)\<lparr> dt_hour := h, dt_minute := 0, dt_second := 0 \<rparr>)) [0..<24],
           curve_values = replicate 24 (Fin 0) \<rparr>,
       data_timestamp = None,
       data_source = None \<rparr>"


section \<open>The time-series store\<close>

text \<open>
  The table \<open>pv_readings\<close> is a list of rows in insertion order. A \<open>REAL\<close> column holds a
  float or \<open>NULL\<close> (\<open>None\<close>); SQLite stores a NaN as \<open>NULL\<close>. Timestamps are seconds, as
  \<open>CURRENT_TIMESTAMP\<close> has a resolution of one second. The messages the application
  shows with \<open>st.success\<close> and \<open>st.error\<close> are collected in \<open>ui\<close>. The sums and
  quotients of the aggregates are binary64 operations, taken from the left.
\<close>

record pv_row =
  row_id :: nat
  row_timestamp :: int
  db_live_power :: "pyfloat option"
  db_energy_today :: "pyfloat option"
  db_ac_power :: "pyfloat option"
  db_dc_power :: "pyfloat option"
  db_efficiency :: "pyfloat option"
  db_uv_index :: "pyfloat option"
  db_total_energy :: "pyfloat option"
  db_system_temp :: "pyfloat option"
  db_co2_avoided :: "pyfloat option"
  db_ambient_temp :: "pyfloat option"
  db_data_source :: string

datatype st_msg =
    Connected
  | LiveDataUnavailable
  | ConnectHint
  | ErrorText exn
  | ParseError exn
  | LoggingError exn
  | StatisticsError exn

record app =
  store :: "pv_row list"
  ui :: "st_msg list"

definition sql_real :: "pyfloat \<Rightarrow> pyfloat option" where
  "sql_real v = (if v = NaN then None else Some v)"

definition next_id :: "pv_row list \<Rightarrow> nat" where
  \<comment> \<open>\<open>INTEGER PRIMARY KEY AUTOINCREMENT\<close>\<close>
  "next_id rs = Suc (foldl max 0 (map row_id rs))"

definition log_data :: "exn option \<Rightarrow> int \<Rightarrow> reading \<Rightarrow> string \<Rightarrow> app \<Rightarrow> app" where
  \<comment> \<open>\<open>fault\<close> is the exception \<open>sqlite3\<close> raises before the commit, if any; \<open>now\<close> is
    the store's clock\<close>
  "log_data fault now data source a =
     (case fault of
        Some e \<Rightarrow> a\<lparr> ui := ui a @ [LoggingError e] \<rparr>
      | None \<Rightarrow>
          a\<lparr> store := store a @
                [\<lparr> row_id = next_id (store a),
                   row_timestamp = now,
                   db_live_power = sql_real (live_power data),
                   db_energy_today = sql_real (energy_today data),
                   db_ac_power = sql_real (ac_power data),
                   db_dc_power = sql_real (dc_power data),
                   db_efficiency = sql_real (efficiency data),
                   db_uv_index = sql_real (uv_index data),
                   db_total_energy = sql_real (total_energy data),
                   db_system_temp = sql_real (system_temp data),
                   db_co2_avoided = sql_real (co2_avoided data),
                   db_ambient_temp = sql_real (ambient_temp data),
                   db_data_source = source \<rparr>] \<rparr>)"

subsection \<open>Aggregates\<close>

fun fdiv_count :: "pyfloat \<Rightarrow> nat \<Rightarrow> pyfloat" where
  \<comment> \<open>a float divided by a positive row count\<close>
  "fdiv_count (Fin a) n = fl (a / of_nat n)"
| "fdiv_count x n = x"

fun fle :: "pyfloat \<Rightarrow> pyfloat \<Rightarrow> bool" where
  "fle NaN _ = False"
| "fle _ NaN = False"
| "fle NInf _ = True"
| "fle _ PInf = True"
| "fle (Fin a) (Fin b) = (a \<le> b)"
| "fle PInf _ = False"
| "fle _ NInf = False"

definition non_null :: "'a option list \<Rightarrow> 'a list" where
  "non_null xs = map the (filter (\<lambda>x. x \<noteq> None) xs)"

definition sql_sum :: "pyfloat option list \<Rightarrow> pyfloat option" where
  "sql_sum xs = (case non_null xs of [] \<Rightarrow> None | v # vs \<Rightarrow> sql_real (py_sum (v # vs)))"

definition sql_avg :: "pyfloat option list \<Rightarrow> pyfloat option" where
  "sql_avg xs =
     (case non_null xs of
        [] \<Rightarrow> None
      | v # vs \<Rightarrow> sql_real (fdiv_count (py_sum (v # vs)) (length (v # vs))))"

definition sql_max :: "pyfloat option list \<Rightarrow> pyfloat option" where
  "sql_max xs =
     (case non_null xs of
        [] \<Rightarrow> None
      | v # vs \<Rightarrow> Some (foldl (\<lambda>m x. if fle m x then x else m) v vs))"

definition sql_min :: "pyfloat option list \<Rightarrow> pyfloat option" where
  "sql_min xs =
     (case non_null xs of
        [] \<Rightarrow> None
      | v # vs \<Rightarrow> Some (foldl (\<lambda>m x. if fle x m then x else m) v vs))"

definition sql_div_count :: "pyfloat option \<Rightarrow> nat \<Rightarrow> pyfloat option" where
  \<comment> \<open>\<open>SUM(..) / COUNT(*)\<close>: \<open>NULL\<close> when the sum is \<open>NULL\<close> or the count is zero\<close>
  "sql_div_count s n =
     (case s of
        None \<Rightarrow> None
      | Some v \<Rightarrow> if n = 0 then None else sql_real (fdiv_count v n))"

record stats =
  reading_count :: nat
  avg_power :: "pyfloat option"
  max_power :: "pyfloat option"
  min_power :: "pyfloat option"
  avg_efficiency :: "pyfloat option"
  avg_daily_energy :: "pyfloat option"

definition in_window :: "int \<Rightarrow> nat \<Rightarrow> pv_row \<Rightarrow> bool" where
  \<comment> \<open>\<open>timestamp >= datetime('now', '-{hours} hours')\<close>; \<open>hours\<close> is one of the window
    sizes of the selection box, a natural number\<close>
  "in_window now hours r = (now - int hours * 3600 \<le> row_timestamp r)"

definition get_data_statistics :: "exn option \<Rightarrow> int \<Rightarrow> nat \<Rightarrow> app \<Rightarrow> stats option \<times> app" where
  \<comment> \<open>\<open>None\<close> is the empty dictionary returned when the query raised\<close>
  "get_data_statistics fault now hours a =
     (case fault of
        Some e \<Rightarrow> (None, a\<lparr> ui := ui a @ [StatisticsError e] \<rparr>)
      | None \<Rightarrow>
          let w = filter (in_window now hours) (store a) in
          (Some \<lparr> reading_count = length w,
                  avg_power = sql_avg (map db_live_power w),
                  max_power = sql_max (map db_live_power w),
                  min_power = sql_min (map db_live_power w),
                  avg_efficiency = sql_avg (map db_efficiency w),
                  avg_daily_energy = sql_div_count (sql_sum (map db_energy_today w)) (length w) \<rparr>,
           a))"

section \<open>\<open>fetch_pv_data\<close>\<close>

record fetch_env =
  ftp_fault :: "exn option"
  csv :: "exn + dataframe"
  db_fault :: "exn option"
  db_clock :: int
  wall_clock :: "nat \<Rightarrow> datetime"

text \<open>
  \<open>ftp_fault\<close> is the exception the FTP download raised, if any; \<open>csv\<close> is what
  \<open>pd.read_csv\<close> returned or raised on the downloaded file; \<open>db_fault\<close> is the exception
  the insert raised, if any. \<open>st.stop()\<close> ends the script run: the function does not return.
\<close>

datatype fetched = Stopped | Returned reading

definition fetch_pv_data :: "fetch_env \<Rightarrow> app \<Rightarrow> fetched \<times> app" where
  "fetch_pv_data env a =
     (case ftp_fault env of
        Some e \<Rightarrow> (Stopped, a\<lparr> ui := ui a @ [LiveDataUnavailable, ConnectHint, ErrorText e] \<rparr>)
      | None \<Rightarrow>
          let a1 = a\<lparr> ui := ui a @ [Connected] \<rparr> in
          (case parse_snapshot (csv env) of
             Inr parsed \<Rightarrow>
               (Returned parsed, log_data (db_fault env) (db_clock env) parsed ''live'' a1)
           | Inl e \<Rightarrow>
               (Returned (fallback_reading (wall_clock env)),
                a1\<lparr> ui := ui a1 @ [ParseError e] \<rparr>)))"


section \<open>The FTP monitor\<close>

text \<open>
  The monitor's state is the variable \<open>prev_mdtm\<close>, the local files (path to content), the
  lines written by \<open>log\<close> (without their time prefix) and, as a record of what happened,
  the paths \<open>download_to\<close> was called with. The server's behaviour is the input: the
  reply to the \<open>MDTM\<close> command (or the exception raised on the way), and for each call of
  \<open>download_to\<close> how the transfer went. Writing a log line is taken to succeed, so no
  exception leaves \<open>_one_check\<close>; the pauses between the rounds are not modelled.
\<close>

datatype transfer =
    ConnectError exn
  | LoginError exn
  | CwdError exn
  | OpenError exn
  | Aborted exn "string list" "string list"
  | Done "string list"

text \<open>
  \<open>Done cs\<close>: the remote file arrived in the chunks \<open>cs\<close>. \<open>Aborted e cs rest\<close>: the chunks
  \<open>cs\<close> were written, then \<open>e\<close> was raised; \<open>rest\<close> is the part of the remote file that
  never arrived. The first four fail before the local file is opened. A chunk is a piece
  of data as it reaches the file.
\<close>

datatype label = Numbered nat nat | Continuous nat

datatype log_msg =
    Checking label
  | MdtmError exn
  | NoMdtm
  | Mdtm string
  | InitialFetch
  | SavedInitial string
  | InitialFailed
  | ChangeDetected string string
  | SavedSnapshot string
  | SnapshotFailed
  | NoChange
  | DownloadError exn

record monitor =
  prev_mdtm :: "string option"
  files :: "string \<rightharpoonup> string"
  log_lines :: "log_msg list"
  attempts :: "string list"

record tick =
  probe :: "exn + string"
  first_transfer :: transfer
  second_transfer :: transfer

definition LOCAL :: string where
  "LOCAL = ''pv.csv''"

definition SNAP_DIR :: string where
  "SNAP_DIR = ''pv_csv_snapshots''"

definition snap_name :: "string \<Rightarrow> string" where
  \<comment> \<open>\<open>os.path.join(SNAP_DIR, f"pv_{mdtm}.csv")\<close>\<close>
  "snap_name mdtm = SNAP_DIR @ ''/'' @ ''pv_'' @ mdtm @ ''.csv''"

definition log_line :: "log_msg \<Rightarrow> monitor \<Rightarrow> monitor" where
  "log_line m st = st\<lparr> log_lines := log_lines st @ [m] \<rparr>"

definition get_mdtm :: "exn + string \<Rightarrow> monitor \<Rightarrow> string option \<times> monitor" where
  "get_mdtm reply st =
     (case reply of
        Inl e \<Rightarrow> (None, log_line (MdtmError e) st)
      | Inr resp \<Rightarrow>
          if startswith resp ''213 '' then
            (case nth_opt (split_ws resp) 1 of
               None \<Rightarrow> (None, log_line (MdtmError IndexError) st)
             | Some tok \<Rightarrow> (Some tok, st))
          else (None, st))"

definition write_chunk :: "string \<Rightarrow> string \<Rightarrow> (string \<rightharpoonup> string) \<Rightarrow> (string \<rightharpoonup> string)" where
  \<comment> \<open>\<open>f.write(chunk)\<close> on the file opened at \<open>path\<close>\<close>
  "write_chunk path chunk fs = fs(path \<mapsto> (case fs path of None \<Rightarrow> [] | Some old \<Rightarrow> old) @ chunk)"

definition open_wb :: "string \<Rightarrow> (string \<rightharpoonup> string) \<Rightarrow> (string \<rightharpoonup> string)" where
  \<comment> \<open>\<open>open(path, 'wb')\<close> creates the file or truncates it\<close>
  "open_wb path fs = fs(path \<mapsto> [])"

fun observations :: "string \<Rightarrow> string list \<Rightarrow> (string \<rightharpoonup> string) \<Rightarrow> (string \<rightharpoonup> string) list" where
  \<comment> \<open>the file system before each chunk is written and after the last\<close>
  "observations path [] fs = [fs]"
| "observations path (c # cs) fs = fs # observations path cs (write_chunk path c fs)"

definition download_trace :: "string \<Rightarrow> transfer \<Rightarrow> (string \<rightharpoonup> string) \<Rightarrow> (string \<rightharpoonup> string) list" where
  \<comment> \<open>every state of the file system during a call of \<open>download_to\<close>, the first before
    the call and the last after it\<close>
  "download_trace path t fs =
     (case t of
        Aborted e cs rest \<Rightarrow> fs # observations path cs (open_wb path fs)
      | Done cs \<Rightarrow> fs # observations path cs (open_wb path fs)
      | _ \<Rightarrow> [fs])"

definition transfer_error :: "transfer \<Rightarrow> exn option" where
  "transfer_error t =
     (case t of
        ConnectError e \<Rightarrow> Some e
      | LoginError e \<Rightarrow> Some e
      | CwdError e \<Rightarrow> Some e
      | OpenError e \<Rightarrow> Some e
      | Aborted e cs rest \<Rightarrow> Some e
      | Done cs \<Rightarrow> None)"

definition remote_content :: "transfer \<Rightarrow> string option" where
  \<comment> \<open>the complete remote file, where the transfer got as far as sending it\<close>
  "remote_content t =
     (case t of
        Aborted e cs rest \<Rightarrow> Some (concat (cs @ rest))
      | Done cs \<Rightarrow> Some (concat cs)
      | _ \<Rightarrow> None)"

definition download_to :: "string \<Rightarrow> transfer \<Rightarrow> monitor \<Rightarrow> bool \<times> monitor" where
  "download_to path t st =
     (let st1 = st\<lparr> attempts := attempts st @ [path],
                     files := last (download_trace path t (files st)) \<rparr>
      in case transfer_error t of
           None \<Rightarrow> (True, st1)
         | Some e \<Rightarrow> (False, log_line (DownloadError e) st1))"

definition one_check :: "label \<Rightarrow> tick \<Rightarrow> monitor \<Rightarrow> monitor" where
  "one_check iteration_label env st0 =
     (let st1 = log_line (Checking iteration_label) st0;
          (mdtm_opt, st2) = get_mdtm (probe env) st1
      in case mdtm_opt of
           None \<Rightarrow> log_line NoMdtm st2
         | Some mdtm \<Rightarrow>
             let st3 = log_line (Mdtm mdtm) st2;
                 st4 =
                   (case prev_mdtm st3 of
                      None \<Rightarrow>
                        (let (ok, st5) = download_to LOCAL (first_transfer env) (log_line InitialFetch st3)
                         in if ok then
                              log_line (SavedInitial (snap_name mdtm))
                                (snd (download_to (snap_name mdtm) (second_transfer env) st5))
                            else log_line InitialFailed st5)
                    | Some prev \<Rightarrow>
                        if mdtm \<noteq> prev then
                          (let (ok, st5) =
                                 download_to (snap_name mdtm) (first_transfer env)
                                   (log_line (ChangeDetected prev mdtm) st3)
                           in if ok then
                                log_line (SavedSnapshot (snap_name mdtm))
                                  (snd (download_to LOCAL (second_transfer env) st5))
                              else log_line SnapshotFailed st5)
                        else log_line NoChange st3)
             in st4\<lparr> prev_mdtm := Some mdtm \<rparr>)"

fun checks :: "(nat \<Rightarrow> label) \<Rightarrow> (nat \<Rightarrow> tick) \<Rightarrow> nat \<Rightarrow> monitor \<Rightarrow> monitor" where
  \<comment> \<open>the state after the first \<open>k\<close> iterations of the loop\<close>
  "checks lab env 0 st = st"
| "checks lab env (Suc k) st = one_check (lab k) (env k) (checks lab env k st)"

definition initial_monitor :: "(string \<rightharpoonup> string) \<Rightarrow> monitor" where
  "initial_monitor fs = \<lparr> prev_mdtm = None, files = fs, log_lines = [], attempts = [] \<rparr>"

definition main :: "int \<Rightarrow> (nat \<Rightarrow> tick) \<Rightarrow> (string \<rightharpoonup> string) \<Rightarrow> monitor option" where
  \<comment> \<open>with \<open>iterations <= 0\<close> the loop never ends (\<open>None\<close>); its state after \<open>k\<close> rounds is
    \<open>checks Continuous env k\<close> of the initial state\<close>
  "main iterations env fs =
     (if iterations \<le> 0 then None
      else Some (checks (\<lambda>i. Numbered (Suc i) (nat iterations)) env (nat iterations)
                   (initial_monitor fs)))"

section \<open>Example inputs\<close>

definition ex_monitor :: monitor where
  "ex_monitor =
     \<lparr> prev_mdtm = Some ''20240101000000'',
       files = [''pv.csv'' \<mapsto> ''OLD''],
       log_lines = [],
       attempts = [] \<rparr>"



definition ex_aborted :: transfer where
  "ex_aborted = Aborted (LibraryError ''timed out'') [''NE''] [''W!'']"

definition ex_reading :: reading where
  "ex_reading =
     \<lparr> live_power = Fin 4, energy_today = Fin 100, ac_power = Fin 3, dc_power = Fin 5,
       efficiency = Fin 92, uv_index = Fin 0, total_energy = Fin 100, system_temp = Fin 0,
       co2_avoided = Fin 36, ambient_temp = Fin 0,
       production_curve = \<lparr> curve_hours = [Idx 0, Idx 1], curve_values = [Fin 3, Fin 4] \<rparr>,
       data_timestamp = Some (Chars ''2024-01-01 12:00:00''),
       data_source = Some ''live'' \<rparr>"

definition ex_app :: app where
  "ex_app = log_data None 1000 ex_reading ''live'' \<lparr> store = [], ui = [] \<rparr>"

definition ex_frame :: dataframe where
  "ex_frame =
     \<lparr> columns = [''timestamp'', ''total_energy_kWh'', ''energy_ptot_0_kWh'', ''energy_ptot_1_kWh''],
       rows = [[''timestamp'' \<mapsto> Text ''2024-01-01 12:00:00'',
                ''total_energy_kWh'' \<mapsto> Num (Fin 100),
                ''energy_ptot_0_kWh'' \<mapsto> Num (Fin 3),
                ''energy_ptot_1_kWh'' \<mapsto> Num (Fin 5)]] \<rparr>"

definition ex_clock :: "nat \<Rightarrow> datetime" where
  "ex_clock k = \<lparr> dt_day = 738000, dt_hour = 13, dt_minute = 5, dt_second = 7, dt_microsecond = k \<rparr>"

definition ex_env :: fetch_env where
  "ex_env =
     \<lparr> ftp_fault = None, csv = Inr ex_frame, db_fault = None, db_clock = 90000,
       wall_clock = ex_clock \<rparr>"

definition ex_env_db_down :: fetch_env where
  "ex_env_db_down = ex_env\<lparr> db_fault := Some (LibraryError ''database is locked'') \<rparr>"

definition ex_frame_header_only :: dataframe where
  "ex_frame_header_only =
     \<lparr> columns = [''timestamp'', ''total_energy_kWh'', ''energy_ptot_0_kWh''], rows = [] \<rparr>"

definition ex_frame_no_points :: dataframe where
  "ex_frame_no_points =
     \<lparr> columns = [''timestamp'', ''total_energy_kWh'', ''energy_ptot_0_kWh''],
       rows = [[''timestamp'' \<mapsto> Text ''2024-01-01 00:00:00'',
                ''total_energy_kWh'' \<mapsto> Num (Fin 0),
                ''energy_ptot_0_kWh'' \<mapsto> Num NaN]] \<rparr>"

definition ex_frame_bad_cell :: dataframe where
  "ex_frame_bad_cell =
     \<lparr> columns = [''timestamp'', ''total_energy_kWh'', ''energy_ptot_0_kWh''],
       rows = [[''timestamp'' \<mapsto> Text ''2024-01-01 00:00:00'',
                ''total_energy_kWh'' \<mapsto> Num (Fin 0),
                ''energy_ptot_0_kWh'' \<mapsto> Text ''n/a?'']] \<rparr>"

definition ex_frame_all_zero :: dataframe where
  "ex_frame_all_zero =
     \<lparr> columns = [''timestamp'', ''total_energy_kWh'', ''energy_ptot_0_kWh''],
       rows = [[''timestamp'' \<mapsto> Text ''2024-01-01 00:00:00'',
                ''total_energy_kWh'' \<mapsto> Num (Fin 0),
                ''energy_ptot_0_kWh'' \<mapsto> Num (Fin 0)]] \<rparr>"

definition ex_frame_order :: dataframe where
  "ex_frame_order =
     \<lparr> columns = [''timestamp'', ''energy_ptot_3_kWh'', ''energy_ptot_x_kWh'', ''energy_ptot_1_kWh'',
                  ''energy_ptot_10_kWh'', ''energy_ptot_2_kWh''],
       rows = [[''timestamp'' \<mapsto> Text ''2024-01-01 12:00:00'',
                ''energy_ptot_3_kWh'' \<mapsto> Num (Fin 30),
                ''energy_ptot_x_kWh'' \<mapsto> Num (Fin 7),
                ''energy_ptot_1_kWh'' \<mapsto> Num (Fin 10),
                ''energy_ptot_10_kWh'' \<mapsto> Num (Fin 100),
                ''energy_ptot_2_kWh'' \<mapsto> Num (Fin 20)]] \<rparr>"

definition ex_frame_large_index :: dataframe where
  "ex_frame_large_index =
     \<lparr> columns = [''energy_ptot_x_kWh'', ''energy_ptot_2000000000_kWh''],
       rows = [[''energy_ptot_x_kWh'' \<mapsto> Num (Fin 7),
                ''energy_ptot_2000000000_kWh'' \<mapsto> Num (Fin 9)]] \<rparr>"

definition float_4_6 :: pyfloat where
  \<comment> \<open>the literal \<open>4.6\<close>\<close>
  "float_4_6 = fl (46 / 10)"

definition float_5_1 :: pyfloat where
  \<comment> \<open>the literal \<open>5.1\<close>\<close>
  "float_5_1 = fl (51 / 10)"

definition float_36_6 :: pyfloat where
  \<comment> \<open>the literal \<open>36.6\<close>\<close>
  "float_36_6 = fl (366 / 10)"

definition ex_frame_bad_total :: dataframe where
  "ex_frame_bad_total =
     \<lparr> columns = [''timestamp'', ''total_energy_kWh'', ''energy_ptot_0_kWh''],
       rows = [[''timestamp'' \<mapsto> Text ''2024-01-01 00:00:00'',
                ''total_energy_kWh'' \<mapsto> Text ''lots'',
                ''energy_ptot_0_kWh'' \<mapsto> Num NaN]] \<rparr>"

definition ex_cols_spaces :: "string list" where
  "ex_cols_spaces =
     [''energy_ptot_7_kWh'', ''energy_ptot_'' @ [CHR 0xA0] @ ''5_kWh'',
      ''energy_ptot_'' @ [CHR 0x1C] @ ''3_kWh'', ''energy_ptot_9_kWh'']"

section \<open>Properties of the monitor\<close>






lemma download_to_keeps:
  "prev_mdtm (snd (download_to p t st)) = prev_mdtm st"
  "attempts (snd (download_to p t st)) = attempts st @ [p]"
  "fst (download_to p t st) = (transfer_error t = None)"
  by (simp_all add: download_to_def log_line_def Let_def split: option.splits)




lemma main_runs_all_rounds:
  "0 < n \<Longrightarrow>
     main n env fs =
       Some (checks (\<lambda>i. Numbered (Suc i) (nat n)) env (nat n) (initial_monitor fs))"
  by (simp add: main_def)








section \<open>Properties of \<open>download_to\<close>\<close>

lemma observations_other:
  "fs \<in> set (observations p cs fs0) \<Longrightarrow> q \<noteq> p \<Longrightarrow> fs q = fs0 q"
  by (induction cs arbitrary: fs0) (auto simp: write_chunk_def)

lemma observations_prefix:
  "fs0 p = Some pre \<Longrightarrow> fs \<in> set (observations p cs fs0) \<Longrightarrow>
     \<exists>k. k \<le> length cs \<and> fs p = Some (pre @ concat (take k cs))"
proof (induction cs arbitrary: fs0 pre)
  case Nil
  then show ?case by simp
next
  case (Cons c cs)
  show ?case
  proof (cases "fs = fs0")
    case True
    with Cons.prems(1) have "fs p = Some (pre @ concat (take 0 (c # cs)))" by simp
    then show ?thesis by blast
  next
    case False
    with Cons.prems(2) have m: "fs \<in> set (observations p cs (write_chunk p c fs0))" by simp
    have w: "write_chunk p c fs0 p = Some (pre @ c)"
      using Cons.prems(1) by (simp add: write_chunk_def)
    from Cons.IH[OF w m] obtain k where
      k: "k \<le> length cs" "fs p = Some ((pre @ c) @ concat (take k cs))" by blast
    then have "Suc k \<le> length (c # cs) \<and> fs p = Some (pre @ concat (take (Suc k) (c # cs)))"
      by simp
    then show ?thesis by blast
  qed
qed

lemma observations_last:
  "fs0 p = Some pre \<Longrightarrow> last (observations p cs fs0) p = Some (pre @ concat cs)"
proof (induction cs arbitrary: fs0 pre)
  case Nil
  then show ?case by simp
next
  case (Cons c cs)
  have w: "write_chunk p c fs0 p = Some (pre @ c)"
    using Cons.prems by (simp add: write_chunk_def)
  have ne: "observations p cs (write_chunk p c fs0) \<noteq> []"
    by (cases cs) simp_all
  show ?case
    using Cons.IH[of "write_chunk p c fs0" "pre @ c"] w ne by simp
qed

lemma observations_nonempty: "observations p cs fs \<noteq> []"
  by (cases cs) simp_all

lemma take_concat_prefix: "take (length (concat (take k cs))) (concat (cs @ rest)) = concat (take k cs)"
proof -
  have "concat (cs @ rest) = concat ((take k cs @ drop k cs) @ rest)"
    by simp
  also have "\<dots> = concat (take k cs) @ (concat (drop k cs) @ concat rest)"
    by (simp only: concat_append append_assoc)
  finally show ?thesis
    by simp
qed

lemma trace_received:
  assumes "fs \<in> set (observations p cs (open_wb p fs0))"
  shows "\<exists>pre. fs p = Some pre \<and> take (length pre) (concat (cs @ rest)) = pre"
proof -
  have o: "open_wb p fs0 p = Some []" by (simp add: open_wb_def)
  from observations_prefix[OF o assms] obtain k where "fs p = Some (concat (take k cs))"
    by auto
  then show ?thesis
    using take_concat_prefix[of k cs rest] by simp
qed

lemma trace_other:
  assumes "fs \<in> set (download_trace p t fs0)" and "q \<noteq> p"
  shows "fs q = fs0 q"
proof (cases t)
  case (Aborted e cs rest)
  then have "fs = fs0 \<or> fs \<in> set (observations p cs (open_wb p fs0))"
    using assms(1) by (simp add: download_trace_def)
  then show ?thesis
    using observations_other[of fs p cs "open_wb p fs0" q] assms(2) by (auto simp: open_wb_def)
next
  case (Done cs)
  then have "fs = fs0 \<or> fs \<in> set (observations p cs (open_wb p fs0))"
    using assms(1) by (simp add: download_trace_def)
  then show ?thesis
    using observations_other[of fs p cs "open_wb p fs0" q] assms(2) by (auto simp: open_wb_def)
qed (use assms in \<open>simp_all add: download_trace_def\<close>)

lemma trace_dest:
  assumes "fs \<in> set (download_trace p t fs0)"
  shows "fs p = fs0 p \<or>
         (\<exists>pre new. fs p = Some pre \<and> remote_content t = Some new \<and> take (length pre) new = pre)"
proof (cases t)
  case (Aborted e cs rest)
  then have "fs = fs0 \<or> fs \<in> set (observations p cs (open_wb p fs0))"
    using assms by (simp add: download_trace_def)
  then show ?thesis
  proof
    assume "fs = fs0"
    then show ?thesis by simp
  next
    assume "fs \<in> set (observations p cs (open_wb p fs0))"
    from trace_received[OF this, of rest] obtain pre where
      "fs p = Some pre" "take (length pre) (concat (cs @ rest)) = pre" by blast
    moreover have "remote_content t = Some (concat (cs @ rest))"
      using Aborted by (simp add: remote_content_def)
    ultimately show ?thesis by blast
  qed
next
  case (Done cs)
  then have "fs = fs0 \<or> fs \<in> set (observations p cs (open_wb p fs0))"
    using assms by (simp add: download_trace_def)
  then show ?thesis
  proof
    assume "fs = fs0"
    then show ?thesis by simp
  next
    assume "fs \<in> set (observations p cs (open_wb p fs0))"
    from trace_received[OF this, of "[]"] obtain pre where
      "fs p = Some pre" "take (length pre) (concat cs) = pre" by auto
    moreover have "remote_content t = Some (concat cs)"
      using Done by (simp add: remote_content_def)
    ultimately show ?thesis by blast
  qed
qed (use assms in \<open>simp_all add: download_trace_def\<close>)

lemma trace_last:
  "last (download_trace p (Aborted e cs rest) fs0) p = Some (concat cs)"
  "last (download_trace p (Done cs) fs0) p = Some (concat cs)"
  using observations_last[of "open_wb p fs0" p "[]" cs]
  by (simp_all add: download_trace_def observations_nonempty open_wb_def)

text \<open>
  C4 (as stated) fails: \<open>download_to\<close> opens the destination itself for writing. With
  \<open>pv.csv\<close> holding \<open>OLD\<close> and a transfer of \<open>NEW!\<close> aborted after the chunk \<open>NE\<close>, the file
  is empty after the open and holds \<open>NE\<close> when \<open>download_to\<close> returns \<open>False\<close>.
\<close>

theorem download_not_atomic_counterexample:
  "files ex_monitor ''pv.csv'' = Some ''OLD'' \<and>
   remote_content ex_aborted = Some ''NEW!'' \<and>
   map (\<lambda>fs. fs ''pv.csv'') (download_trace ''pv.csv'' ex_aborted (files ex_monitor))
     = [Some ''OLD'', Some [], Some ''NE''] \<and>
   fst (download_to ''pv.csv'' ex_aborted ex_monitor) = False \<and>
   files (snd (download_to ''pv.csv'' ex_aborted ex_monitor)) ''pv.csv'' = Some ''NE''"
  by (simp add: ex_monitor_def ex_aborted_def remote_content_def download_trace_def
      download_to_def transfer_error_def open_wb_def write_chunk_def log_line_def Let_def)

text \<open>
  C4 (amended). \<open>download_to\<close> writes the destination in place, with no temporary file:
  during a call no other path changes, and at every observation point the destination
  holds its prior content (before it is opened) or the part of the new content received
  so far, an initial segment of the remote file, empty right after the open. A transfer
  that completes leaves the complete new content and returns \<open>True\<close>. A transfer aborted
  after the open leaves exactly the chunks received and returns \<open>False\<close>; one that fails
  before the open leaves the destination as it was.
\<close>

theorem download_to_writes_in_place:
  "(\<forall>fs \<in> set (download_trace path t (files st)).
      (\<forall>q. q \<noteq> path \<longrightarrow> fs q = files st q) \<and>
      (fs path = files st path \<or>
       (\<exists>pre new. fs path = Some pre \<and> remote_content t = Some new \<and>
          take (length pre) new = pre))) \<and>
   (t = Done cs \<longrightarrow>
      fst (download_to path t st) = True \<and>
      files (snd (download_to path t st)) path = remote_content t) \<and>
   (t = Aborted e cs rest \<longrightarrow>
      fst (download_to path t st) = False \<and>
      files (snd (download_to path t st)) path = Some (concat cs)) \<and>
   (t \<in> {ConnectError e, LoginError e, CwdError e, OpenError e} \<longrightarrow>
      fst (download_to path t st) = False \<and>
      files (snd (download_to path t st)) = files st)"
proof (intro conjI ballI allI impI)
  fix fs q
  assume "fs \<in> set (download_trace path t (files st))" and "q \<noteq> path"
  then show "fs q = files st q" by (rule trace_other)
next
  fix fs
  assume "fs \<in> set (download_trace path t (files st))"
  then show "fs path = files st path \<or>
       (\<exists>pre new. fs path = Some pre \<and> remote_content t = Some new \<and>
          take (length pre) new = pre)"
    by (rule trace_dest)
next
  assume "t = Done cs"
  then show "fst (download_to path t st) = True"
    by (simp add: download_to_keeps transfer_error_def)
next
  assume "t = Done cs"
  then show "files (snd (download_to path t st)) path = remote_content t"
    by (simp add: download_to_def transfer_error_def Let_def trace_last remote_content_def)
next
  assume "t = Aborted e cs rest"
  then show "fst (download_to path t st) = False"
    by (simp add: download_to_keeps transfer_error_def)
next
  assume "t = Aborted e cs rest"
  then show "files (snd (download_to path t st)) path = Some (concat cs)"
    by (simp add: download_to_def transfer_error_def Let_def trace_last log_line_def)
next
  assume "t \<in> {ConnectError e, LoginError e, CwdError e, OpenError e}"
  then show "fst (download_to path t st) = False"
    by (auto simp add: download_to_keeps transfer_error_def)
next
  assume "t \<in> {ConnectError e, LoginError e, CwdError e, OpenError e}"
  then show "files (snd (download_to path t st)) = files st"
    by (auto simp add: download_to_def transfer_error_def Let_def download_trace_def log_line_def)
qed

theorem download_to_writes_in_place_witness:
  "download_trace ''pv.csv'' ex_aborted (files ex_monitor) ! 2
     \<in> set (download_trace ''pv.csv'' ex_aborted (files ex_monitor)) \<and>
   (download_trace ''pv.csv'' ex_aborted (files ex_monitor) ! 2) ''pv.csv'' = Some ''NE'' \<and>
   (download_trace ''pv.csv'' ex_aborted (files ex_monitor) ! 2) ''other.csv''
     = files ex_monitor ''other.csv'' \<and>
   fst (download_to ''pv.csv'' ex_aborted ex_monitor) = False \<and>
   files (snd (download_to ''pv.csv'' ex_aborted ex_monitor)) ''pv.csv'' = Some ''NE'' \<and>
   fst (download_to ''pv.csv'' (Done [''NE'', ''W!'']) ex_monitor) = True \<and>
   files (snd (download_to ''pv.csv'' (Done [''NE'', ''W!'']) ex_monitor)) ''pv.csv''
     = Some ''NEW!'' \<and>
   files (snd (download_to ''pv.csv'' (ConnectError KeyError) ex_monitor)) = files ex_monitor"
proof -
  have m: "download_trace ''pv.csv'' ex_aborted (files ex_monitor) ! 2
      \<in> set (download_trace ''pv.csv'' ex_aborted (files ex_monitor))"
    by (simp add: ex_aborted_def download_trace_def)
  have v: "(download_trace ''pv.csv'' ex_aborted (files ex_monitor) ! 2) ''pv.csv'' = Some ''NE''"
    by (simp add: ex_aborted_def download_trace_def open_wb_def write_chunk_def)
  have a: "ex_aborted = Aborted (LibraryError ''timed out'') [''NE''] [''W!'']"
    by (simp add: ex_aborted_def)
  have d: "remote_content (Done [''NE'', ''W!'']) = Some ''NEW!''"
    by (simp add: remote_content_def)
  have c: "ConnectError KeyError
      \<in> {ConnectError KeyError, LoginError KeyError, CwdError KeyError, OpenError KeyError}"
    by simp
  note ab = download_to_writes_in_place
    [of "''pv.csv''" ex_aborted ex_monitor "[''NE'']" "LibraryError ''timed out''" "[''W!'']"]
  note dn = download_to_writes_in_place
    [of "''pv.csv''" "Done [''NE'', ''W!'']" ex_monitor "[''NE'', ''W!'']"]
  note ce = download_to_writes_in_place
    [of "''pv.csv''" "ConnectError KeyError" ex_monitor _ KeyError]
  have o: "(download_trace ''pv.csv'' ex_aborted (files ex_monitor) ! 2) ''other.csv''
     = files ex_monitor ''other.csv''"
    using ab[THEN conjunct1, THEN bspec, OF m] by simp
  have r1: "fst (download_to ''pv.csv'' ex_aborted ex_monitor) = False \<and>
      files (snd (download_to ''pv.csv'' ex_aborted ex_monitor)) ''pv.csv'' = Some (concat [''NE''])"
    using ab[THEN conjunct2, THEN conjunct2, THEN conjunct1, THEN mp, OF a] .
  have r2: "fst (download_to ''pv.csv'' (Done [''NE'', ''W!'']) ex_monitor) = True \<and>
      files (snd (download_to ''pv.csv'' (Done [''NE'', ''W!'']) ex_monitor)) ''pv.csv''
        = remote_content (Done [''NE'', ''W!''])"
    using dn[THEN conjunct2, THEN conjunct1, THEN mp, OF refl] .
  have r3: "fst (download_to ''pv.csv'' (ConnectError KeyError) ex_monitor) = False \<and>
      files (snd (download_to ''pv.csv'' (ConnectError KeyError) ex_monitor)) = files ex_monitor"
    using ce[THEN conjunct2, THEN conjunct2, THEN conjunct2, THEN mp, OF c] .
  show ?thesis
    using m v o r1 r2 r3 d by simp
qed

section \<open>Properties of the store\<close>

lemma ex_frame_parsed:
  "parse_snapshot (Inr ex_frame) =
     Inr \<lparr> live_power = Fin 5, energy_today = Fin 100,
           ac_power = Fin (5179139571476071 / 1125899906842624),
           dc_power = Fin (2871044762448691 / 562949953421312),
           efficiency = Fin 92, uv_index = Fin 0, total_energy = Fin 100, system_temp = Fin 0,
           co2_avoided = Fin (5150992073805005 / 140737488355328), ambient_temp = Fin 0,
           production_curve = \<lparr> curve_hours = [Idx 0, Idx 1], curve_values = [Fin 3, Fin 5] \<rparr>,
           data_timestamp = Some (Chars ''2024-01-01 12:00:00''),
           data_source = Some ''live'' \<rparr>"
  by code_simp

lemma ex_frame_parses: "\<exists>r. parse_snapshot (Inr ex_frame) = Inr r"
  using ex_frame_parsed by blast

text \<open>
  C7 (as stated) fails: \<open>log_data\<close> catches every exception of the insert. With the
  database locked, the store is unchanged, and \<open>fetch_pv_data\<close> returns to its caller
  exactly what it returns when the insert succeeds.
\<close>

theorem persistence_error_counterexample:
  "store (snd (fetch_pv_data ex_env_db_down ex_app)) = store ex_app \<and>
   fst (fetch_pv_data ex_env_db_down ex_app) = fst (fetch_pv_data ex_env ex_app) \<and>
   fst (fetch_pv_data ex_env_db_down ex_app) \<noteq> Stopped \<and>
   length (store (snd (fetch_pv_data ex_env ex_app))) = Suc (length (store ex_app))"
proof -
  obtain r where r: "parse_snapshot (Inr ex_frame) = Inr r"
    using ex_frame_parses by blast
  show ?thesis
    by (simp add: fetch_pv_data_def ex_env_db_down_def ex_env_def r log_data_def Let_def)
qed

text \<open>
  C7 (amended). When the insert raises, \<open>log_data\<close> catches the exception, shows it with
  \<open>st.error\<close> and returns normally with the store unchanged: no error reaches the caller,
  and \<open>fetch_pv_data\<close> returns the parsed reading all the same. When the insert succeeds,
  exactly one row is appended and nothing is shown.
\<close>

theorem log_data_swallows_errors:
  "log_data (Some e) now d src a = a\<lparr> ui := ui a @ [LoggingError e] \<rparr> \<and>
   store (log_data None now d src a) = store a @ [last (store (log_data None now d src a))] \<and>
   ui (log_data None now d src a) = ui a \<and>
   (ftp_fault env = None \<and> db_fault env = Some e \<and> parse_snapshot (csv env) = Inr r \<longrightarrow>
      fetch_pv_data env a = (Returned r, a\<lparr> ui := ui a @ [Connected, LoggingError e] \<rparr>))"
  by (simp add: log_data_def fetch_pv_data_def Let_def)

theorem log_data_swallows_errors_witness:
  "ftp_fault ex_env_db_down = None \<and>
   db_fault ex_env_db_down = Some (LibraryError ''database is locked'') \<and>
   (\<exists>r. parse_snapshot (csv ex_env_db_down) = Inr r \<and>
      fetch_pv_data ex_env_db_down ex_app =
        (Returned r,
         ex_app\<lparr> ui := ui ex_app @ [Connected, LoggingError (LibraryError ''database is locked'')] \<rparr>))"
proof -
  obtain r where r: "parse_snapshot (Inr ex_frame) = Inr r"
    using ex_frame_parses by blast
  have h1: "ftp_fault ex_env_db_down = None"
    by (simp add: ex_env_db_down_def ex_env_def)
  have h2: "db_fault ex_env_db_down = Some (LibraryError ''database is locked'')"
    by (simp add: ex_env_db_down_def)
  have h3: "parse_snapshot (csv ex_env_db_down) = Inr r"
    using r by (simp add: ex_env_db_down_def ex_env_def)
  from log_data_swallows_errors
    [of "LibraryError ''database is locked''" _ _ _ ex_app ex_env_db_down r,
     THEN conjunct2, THEN conjunct2, THEN conjunct2, THEN mp, OF conjI[OF h1 conjI[OF h2 h3]]]
  show ?thesis
    using h1 h2 h3 by blast
qed

text \<open>
  C6 (as stated) fails: over an empty window the query returns the count 0 and \<open>NULL\<close>
  for the five other aggregates, which reach the caller as \<open>None\<close>, not as 0.
\<close>

theorem empty_window_counterexample:
  "filter (in_window 90000 1) (store ex_app) = [] \<and>
   fst (get_data_statistics None 90000 1 ex_app) =
     Some \<lparr> reading_count = 0, avg_power = None, max_power = None, min_power = None,
            avg_efficiency = None, avg_daily_energy = None \<rparr> \<and>
   map_option avg_power (fst (get_data_statistics None 90000 1 ex_app)) \<noteq> Some (Some (Fin 0))"
  by (simp add: ex_app_def log_data_def in_window_def get_data_statistics_def Let_def
      sql_avg_def sql_max_def sql_min_def sql_sum_def sql_div_count_def non_null_def)

text \<open>
  C6 (amended). For every aggregate query over a window containing zero records: when
  the query does not raise, the result has the count 0 and every other aggregate
  (\<open>avg_power\<close>, \<open>max_power\<close>, \<open>min_power\<close>, \<open>avg_efficiency\<close>, \<open>avg_daily_energy\<close>) is
  \<open>NULL\<close> (\<open>None\<close> in the dictionary returned), not 0, and nothing is shown or stored;
  when the query raises, the error is shown and the empty dictionary is returned.
\<close>

theorem empty_window_statistics:
  assumes "filter (in_window now hours) (store a) = []"
  shows "get_data_statistics fault now hours a =
           (case fault of
              None \<Rightarrow>
                (Some \<lparr> reading_count = 0, avg_power = None, max_power = None,
                        min_power = None, avg_efficiency = None, avg_daily_energy = None \<rparr>,
                 a)
            | Some e \<Rightarrow> (None, a\<lparr> ui := ui a @ [StatisticsError e] \<rparr>))"
  using assms
  by (simp add: get_data_statistics_def Let_def sql_avg_def sql_max_def sql_min_def
      sql_sum_def sql_div_count_def non_null_def split: option.splits)

theorem empty_window_statistics_witness:
  "filter (in_window 90000 1) (store ex_app) = [] \<and>
   store ex_app \<noteq> [] \<and>
   get_data_statistics None 90000 1 ex_app =
     (Some \<lparr> reading_count = 0, avg_power = None, max_power = None, min_power = None,
             avg_efficiency = None, avg_daily_energy = None \<rparr>, ex_app) \<and>
   get_data_statistics (Some (LibraryError ''no such table: pv_readings'')) 90000 1 ex_app =
     (None, ex_app\<lparr> ui := ui ex_app @
        [StatisticsError (LibraryError ''no such table: pv_readings'')] \<rparr>)"
proof -
  have h: "filter (in_window 90000 1) (store ex_app) = []"
    by (simp add: ex_app_def log_data_def in_window_def)
  have n: "store ex_app \<noteq> []"
    by (simp add: ex_app_def log_data_def)
  from empty_window_statistics[OF h, of None]
    empty_window_statistics[OF h, of "Some (LibraryError ''no such table: pv_readings'')"] h n
  show ?thesis
    by simp
qed

section \<open>Properties of the parser\<close>

lemma parse_row_Inr:
  assumes "parse_row df row = Inr r"
  obtains vs today tot where
    "production_values row (prod_cols df) = Inr vs"
    "row_get_float row ''total_energy_kWh'' (py_sum vs) = Inr today"
    "row_get_float row ''total_energy_kWh'' (Fin 0) = Inr tot"
    "live_power r = (if vs \<noteq> [] then last vs else Fin 0)"
    "energy_today r = today"
    "total_energy r = tot"
    "ac_power r = (if truthy (live_power r) then fmul (live_power r) float_0_92 else Fin 0)"
    "dc_power r = (if truthy (live_power r) then fmul (live_power r) float_1_02 else Fin 0)"
    "co2_avoided r = fmul tot float_0_366"
    "efficiency r = Fin 92"
    "production_curve r = \<lparr> curve_hours = map Idx [0..<length vs], curve_values = vs \<rparr>"
    "data_source r = Some ''live''"
  using assms
  by (auto simp add: parse_row_def Let_def split: sum.splits)

lemma parse_snapshot_Inr:
  assumes "parse_snapshot c = Inr r"
  obtains df where "c = Inr df" "rows df \<noteq> []" "parse_row df (last (rows df)) = Inr r"
  using assms
  by (auto simp add: parse_snapshot_def iloc_last_def split: sum.splits if_splits)

lemma production_values_all_missing:
  assumes "\<forall>c \<in> set cs. \<exists>x. row c = Some x \<and> \<not> py_notna x"
  shows "production_values row cs = Inr []"
  using assms by (induction cs) auto

lemma fetch_parsed:
  assumes "ftp_fault env = None" and "parse_snapshot (csv env) = Inr r"
  shows "fst (fetch_pv_data env a) = Returned r"
  using assms by (simp add: fetch_pv_data_def Let_def)

lemma fetch_failed:
  assumes "ftp_fault env = None" and "parse_snapshot (csv env) = Inl e"
  shows "fetch_pv_data env a =
           (Returned (fallback_reading (wall_clock env)), a\<lparr> ui := ui a @ [Connected, ParseError e] \<rparr>)"
  using assms by (simp add: fetch_pv_data_def Let_def)

lemma production_values_order:
  assumes "production_values row cs = Inr vs"
  shows "map Inr vs =
           map (\<lambda>c. py_float (the (row c))) (filter (\<lambda>c. py_notna (the (row c))) cs)"
  using assms
proof (induction cs arbitrary: vs)
  case Nil
  then show ?case by simp
next
  case (Cons c cs)
  then show ?case
    by (auto split: option.splits if_splits sum.splits)
qed

lemma production_values_no_valid:
  assumes "\<forall>c \<in> set cs. \<exists>x. row c = Some x \<and> (\<not> py_notna x \<or> (\<exists>s. x = Text s))"
  shows "production_values row cs =
           (if \<exists>c \<in> set cs. \<exists>s. row c = Some (Text s) then Inl ValueError else Inr [])"
  using assms
proof (induction cs)
  case Nil
  then show ?case by simp
next
  case (Cons c cs)
  then obtain x where x: "row c = Some x" "\<not> py_notna x \<or> (\<exists>s. x = Text s)"
    by auto
  have ih: "production_values row cs =
           (if \<exists>c \<in> set cs. \<exists>s. row c = Some (Text s) then Inl ValueError else Inr [])"
    using Cons by simp
  show ?case
  proof (cases "\<exists>s. x = Text s")
    case True
    then show ?thesis using x by auto
  next
    case False
    then have "\<not> py_notna x" using x by blast
    then show ?thesis using x ih False by auto
  qed
qed

lemma curve_of_parsed:
  assumes "parse_snapshot (Inr df) = Inr r"
  shows "map Inr (curve_values (production_curve r)) =
           map (\<lambda>c. py_float (the (last (rows df) c)))
             (filter (\<lambda>c. py_notna (the (last (rows df) c)))
                (sort_key ptot_index (filter is_prod_col (columns df))))"
    and "live_power r =
           (if curve_values (production_curve r) = [] then Fin 0
            else last (curve_values (production_curve r)))"
proof -
  from parse_snapshot_Inr[OF assms] have d: "parse_row df (last (rows df)) = Inr r"
    by auto
  from parse_row_Inr[OF d] obtain vs where
    v: "production_values (last (rows df)) (prod_cols df) = Inr vs"
    and l: "live_power r = (if vs \<noteq> [] then last vs else Fin 0)"
    and c: "production_curve r = \<lparr> curve_hours = map Idx [0..<length vs], curve_values = vs \<rparr>"
    by blast
  show "map Inr (curve_values (production_curve r)) =
           map (\<lambda>c. py_float (the (last (rows df) c)))
             (filter (\<lambda>c. py_notna (the (last (rows df) c)))
                (sort_key ptot_index (filter is_prod_col (columns df))))"
    using production_values_order[OF v] c by (simp add: prod_cols_def)
  show "live_power r =
           (if curve_values (production_curve r) = [] then Fin 0
            else last (curve_values (production_curve r)))"
    using l c by simp
qed

text \<open>
  C9 (as stated) fails in its second part: a snapshot with zero valid per-point columns
  is not always read without error. In the example the only per-point cell is missing
  and the total-energy cell holds the text \<open>lots\<close>; \<open>float\<close> raises on it, the error is
  shown, and what is returned is the dictionary of the \<open>except\<close> branch, whose curve has
  24 points.
\<close>

theorem empty_curve_counterexample:
  "prod_cols ex_frame_bad_total = [''energy_ptot_0_kWh''] \<and>
   last (rows ex_frame_bad_total) ''energy_ptot_0_kWh'' = Some (Num NaN) \<and>
   fetch_pv_data (ex_env\<lparr> csv := Inr ex_frame_bad_total \<rparr>) ex_app =
     (Returned (fallback_reading ex_clock),
      ex_app\<lparr> ui := ui ex_app @ [Connected, ParseError ValueError] \<rparr>) \<and>
   curve_values (production_curve (fallback_reading ex_clock)) = replicate 24 (Fin 0) \<and>
   curve_values (production_curve (fallback_reading ex_clock)) \<noteq> []"
proof -
  have p: "prod_cols ex_frame_bad_total = [''energy_ptot_0_kWh'']"
    by code_simp
  have c: "last (rows ex_frame_bad_total) ''energy_ptot_0_kWh'' = Some (Num NaN)"
    by (simp add: ex_frame_bad_total_def)
  have b: "parse_snapshot (Inr ex_frame_bad_total) = Inl ValueError"
    by code_simp
  have f: "fetch_pv_data (ex_env\<lparr> csv := Inr ex_frame_bad_total \<rparr>) ex_app =
     (Returned (fallback_reading ex_clock),
      ex_app\<lparr> ui := ui ex_app @ [Connected, ParseError ValueError] \<rparr>)"
    using fetch_failed[of "ex_env\<lparr> csv := Inr ex_frame_bad_total \<rparr>" ValueError ex_app] b
    by (simp add: ex_env_def)
  show ?thesis
    using p c f by (simp add: fallback_reading_def)
qed

text \<open>
  C9 (amended). For every snapshot that parses, the production curve holds the float
  values of the cells that are not missing, taken from the per-point columns in ascending
  order of their index, and \<open>live_power\<close> is the last value of that curve, or 0 when the
  curve is empty. A snapshot without a data row makes \<open>fetch_pv_data\<close> show an error and
  return the dictionary of zeros with its 24-point curve. For a snapshot with a data row
  in which no per-point column holds a number (there is no such column, or each cell is
  missing or a text that \<open>float\<close> rejects): when one of these cells or the total-energy
  cell is such a text, the error is shown and the same dictionary is returned; otherwise
  the snapshot parses, with \<open>live_power = 0.0\<close> and an empty curve.
\<close>

theorem live_power_last_of_curve:
  "(parse_snapshot (Inr df) = Inr r \<longrightarrow>
      map Inr (curve_values (production_curve r)) =
        map (\<lambda>c. py_float (the (last (rows df) c)))
          (filter (\<lambda>c. py_notna (the (last (rows df) c)))
             (sort_key ptot_index (filter is_prod_col (columns df)))) \<and>
      live_power r =
        (if curve_values (production_curve r) = [] then Fin 0
         else last (curve_values (production_curve r)))) \<and>
   (ftp_fault env = None \<and> csv env = Inr df \<and> rows df = [] \<longrightarrow>
      fetch_pv_data env a =
        (Returned (fallback_reading (wall_clock env)),
         a\<lparr> ui := ui a @ [Connected, ParseError IndexError] \<rparr>)) \<and>
   (ftp_fault env = None \<and> csv env = Inr df \<and> rows df \<noteq> [] \<and>
    (\<forall>c \<in> set (filter is_prod_col (columns df)).
       \<exists>x. last (rows df) c = Some x \<and> (\<not> py_notna x \<or> (\<exists>s. x = Text s))) \<longrightarrow>
      (if (\<exists>c \<in> set (filter is_prod_col (columns df)). \<exists>s. last (rows df) c = Some (Text s)) \<or>
          (\<exists>s. last (rows df) ''total_energy_kWh'' = Some (Text s))
       then fetch_pv_data env a =
              (Returned (fallback_reading (wall_clock env)),
               a\<lparr> ui := ui a @ [Connected, ParseError ValueError] \<rparr>)
       else (\<exists>r0. fst (fetch_pv_data env a) = Returned r0 \<and>
               parse_snapshot (csv env) = Inr r0 \<and>
               live_power r0 = Fin 0 \<and>
               production_curve r0 = \<lparr> curve_hours = [], curve_values = [] \<rparr>)))"
proof (intro conjI impI)
  assume p: "parse_snapshot (Inr df) = Inr r"
  show "map Inr (curve_values (production_curve r)) =
        map (\<lambda>c. py_float (the (last (rows df) c)))
          (filter (\<lambda>c. py_notna (the (last (rows df) c)))
             (sort_key ptot_index (filter is_prod_col (columns df))))"
    by (rule curve_of_parsed(1)[OF p])
  show "live_power r =
        (if curve_values (production_curve r) = [] then Fin 0
         else last (curve_values (production_curve r)))"
    by (rule curve_of_parsed(2)[OF p])
next
  assume h: "ftp_fault env = None \<and> csv env = Inr df \<and> rows df = []"
  then have "parse_snapshot (csv env) = Inl IndexError"
    by (simp add: parse_snapshot_def iloc_last_def)
  then show "fetch_pv_data env a =
        (Returned (fallback_reading (wall_clock env)),
         a\<lparr> ui := ui a @ [Connected, ParseError IndexError] \<rparr>)"
    using h fetch_failed by blast
next
  assume h: "ftp_fault env = None \<and> csv env = Inr df \<and> rows df \<noteq> [] \<and>
    (\<forall>c \<in> set (filter is_prod_col (columns df)).
       \<exists>x. last (rows df) c = Some x \<and> (\<not> py_notna x \<or> (\<exists>s. x = Text s)))"
  let ?row = "last (rows df)"
  let ?bad = "\<exists>c \<in> set (filter is_prod_col (columns df)). \<exists>s. ?row c = Some (Text s)"
  let ?badtotal = "\<exists>s. ?row ''total_energy_kWh'' = Some (Text s)"
  have s: "set (prod_cols df) = set (filter is_prod_col (columns df))"
    by (simp add: prod_cols_def)
  have "\<forall>c \<in> set (prod_cols df).
       \<exists>x. ?row c = Some x \<and> (\<not> py_notna x \<or> (\<exists>s. x = Text s))"
    using h unfolding s by blast
  from production_values_no_valid[OF this]
  have v: "production_values ?row (prod_cols df) = (if ?bad then Inl ValueError else Inr [])"
    unfolding s .
  have ps: "parse_snapshot (csv env) = parse_row df ?row"
    using h by (simp add: parse_snapshot_def iloc_last_def)
  have t: "row_get_float ?row ''total_energy_kWh'' d =
      (if ?badtotal then Inl ValueError
       else Inr (case ?row ''total_energy_kWh'' of None \<Rightarrow> d | Some x \<Rightarrow> projr (py_float x)))" for d
  proof (cases "?row ''total_energy_kWh''")
    case None
    then show ?thesis by (simp add: row_get_float_def)
  next
    case (Some x)
    then show ?thesis by (cases x) (simp_all add: row_get_float_def)
  qed
  show "if ?bad \<or> ?badtotal
       then fetch_pv_data env a =
              (Returned (fallback_reading (wall_clock env)),
               a\<lparr> ui := ui a @ [Connected, ParseError ValueError] \<rparr>)
       else (\<exists>r0. fst (fetch_pv_data env a) = Returned r0 \<and>
               parse_snapshot (csv env) = Inr r0 \<and>
               live_power r0 = Fin 0 \<and>
               production_curve r0 = \<lparr> curve_hours = [], curve_values = [] \<rparr>)"
  proof (cases "?bad \<or> ?badtotal")
    case True
    have "parse_row df ?row = Inl ValueError"
    proof (cases ?bad)
      case True
      then show ?thesis by (simp add: parse_row_def v)
    next
      case False
      with True have ?badtotal by blast
      then show ?thesis using False by (simp add: parse_row_def v t Let_def)
    qed
    then have "parse_snapshot (csv env) = Inl ValueError"
      using ps by simp
    then have "fetch_pv_data env a =
              (Returned (fallback_reading (wall_clock env)),
               a\<lparr> ui := ui a @ [Connected, ParseError ValueError] \<rparr>)"
      using h fetch_failed by blast
    with True show ?thesis by simp
  next
    case False
    then have nb: "\<not> ?bad" and nt: "\<not> ?badtotal" by blast+
    have "\<exists>r0. parse_row df ?row = Inr r0 \<and> live_power r0 = Fin 0 \<and>
        production_curve r0 = \<lparr> curve_hours = [], curve_values = [] \<rparr>"
      using nb nt by (simp add: parse_row_def v t Let_def)
    then obtain r0 where r0: "parse_row df ?row = Inr r0" "live_power r0 = Fin 0"
      "production_curve r0 = \<lparr> curve_hours = [], curve_values = [] \<rparr>" by blast
    have p: "parse_snapshot (csv env) = Inr r0"
      using ps r0(1) by simp
    have "fst (fetch_pv_data env a) = Returned r0"
      using h p by (simp add: fetch_parsed)
    with p r0 have "\<exists>r0. fst (fetch_pv_data env a) = Returned r0 \<and>
               parse_snapshot (csv env) = Inr r0 \<and>
               live_power r0 = Fin 0 \<and>
               production_curve r0 = \<lparr> curve_hours = [], curve_values = [] \<rparr>"
      by blast
    with False show ?thesis by simp
  qed
qed

theorem live_power_last_of_curve_witness:
  "(\<exists>r. parse_snapshot (Inr ex_frame_order) = Inr r \<and>
        curve_values (production_curve r) = [Fin 10, Fin 20, Fin 30, Fin 100, Fin 7] \<and>
        live_power r = Fin 7 \<and>
        map Inr (curve_values (production_curve r)) =
          map (\<lambda>c. py_float (the (last (rows ex_frame_order) c)))
            (filter (\<lambda>c. py_notna (the (last (rows ex_frame_order) c)))
               (sort_key ptot_index (filter is_prod_col (columns ex_frame_order))))) \<and>
   rows ex_frame_header_only = [] \<and>
   fetch_pv_data (ex_env\<lparr> csv := Inr ex_frame_header_only \<rparr>) ex_app =
     (Returned (fallback_reading ex_clock),
      ex_app\<lparr> ui := ui ex_app @ [Connected, ParseError IndexError] \<rparr>) \<and>
   rows ex_frame_no_points \<noteq> [] \<and>
   filter is_prod_col (columns ex_frame_no_points) = [''energy_ptot_0_kWh''] \<and>
   last (rows ex_frame_no_points) ''energy_ptot_0_kWh'' = Some (Num NaN) \<and>
   last (rows ex_frame_no_points) ''total_energy_kWh'' = Some (Num (Fin 0)) \<and>
   (\<exists>r0. fst (fetch_pv_data (ex_env\<lparr> csv := Inr ex_frame_no_points \<rparr>) ex_app) = Returned r0 \<and>
         live_power r0 = Fin 0 \<and>
         production_curve r0 = \<lparr> curve_hours = [], curve_values = [] \<rparr>) \<and>
   rows ex_frame_bad_total \<noteq> [] \<and>
   filter is_prod_col (columns ex_frame_bad_total) = [''energy_ptot_0_kWh''] \<and>
   last (rows ex_frame_bad_total) ''energy_ptot_0_kWh'' = Some (Num NaN) \<and>
   last (rows ex_frame_bad_total) ''total_energy_kWh'' = Some (Text ''lots'') \<and>
   fetch_pv_data (ex_env\<lparr> csv := Inr ex_frame_bad_total \<rparr>) ex_app =
     (Returned (fallback_reading ex_clock),
      ex_app\<lparr> ui := ui ex_app @ [Connected, ParseError ValueError] \<rparr>)"
proof -
  have v: "map_sum id (\<lambda>r. (curve_values (production_curve r), live_power r))
      (parse_snapshot (Inr ex_frame_order))
     = Inr ([Fin 10, Fin 20, Fin 30, Fin 100, Fin 7], Fin 7)"
    by code_simp
  then obtain r where p: "parse_snapshot (Inr ex_frame_order) = Inr r"
    and cv: "curve_values (production_curve r) = [Fin 10, Fin 20, Fin 30, Fin 100, Fin 7]"
    and lp: "live_power r = Fin 7"
    by (cases "parse_snapshot (Inr ex_frame_order)") auto
  have w1: "map Inr (curve_values (production_curve r)) =
          map (\<lambda>c. py_float (the (last (rows ex_frame_order) c)))
            (filter (\<lambda>c. py_notna (the (last (rows ex_frame_order) c)))
               (sort_key ptot_index (filter is_prod_col (columns ex_frame_order))))"
    using live_power_last_of_curve[of ex_frame_order r ex_env ex_app] p by blast
  have f: "ftp_fault (ex_env\<lparr> csv := c \<rparr>) = None" for c
    by (simp add: ex_env_def)
  have w: "wall_clock (ex_env\<lparr> csv := c \<rparr>) = ex_clock" for c
    by (simp add: ex_env_def)
  have e: "csv (ex_env\<lparr> csv := c \<rparr>) = c" for c
    by simp
  have h0: "rows ex_frame_header_only = []"
    by (simp add: ex_frame_header_only_def)
  have w2: "fetch_pv_data (ex_env\<lparr> csv := Inr ex_frame_header_only \<rparr>) ex_app =
     (Returned (fallback_reading ex_clock),
      ex_app\<lparr> ui := ui ex_app @ [Connected, ParseError IndexError] \<rparr>)"
    using live_power_last_of_curve
      [of ex_frame_header_only r "ex_env\<lparr> csv := Inr ex_frame_header_only \<rparr>" ex_app] f e h0
    by (simp add: w)
  have n1: "rows ex_frame_no_points \<noteq> []"
    by (simp add: ex_frame_no_points_def)
  have c1: "filter is_prod_col (columns ex_frame_no_points) = [''energy_ptot_0_kWh'']"
    by code_simp
  have a1: "last (rows ex_frame_no_points) ''energy_ptot_0_kWh'' = Some (Num NaN)"
    by (simp add: ex_frame_no_points_def)
  have t1: "last (rows ex_frame_no_points) ''total_energy_kWh'' = Some (Num (Fin 0))"
    by (simp add: ex_frame_no_points_def)
  have w3: "\<exists>r0. fst (fetch_pv_data (ex_env\<lparr> csv := Inr ex_frame_no_points \<rparr>) ex_app) = Returned r0 \<and>
         live_power r0 = Fin 0 \<and>
         production_curve r0 = \<lparr> curve_hours = [], curve_values = [] \<rparr>"
    using live_power_last_of_curve
      [of ex_frame_no_points r "ex_env\<lparr> csv := Inr ex_frame_no_points \<rparr>" ex_app] f e n1 a1 t1
    by (simp add: c1) blast
  have n2: "rows ex_frame_bad_total \<noteq> []"
    by (simp add: ex_frame_bad_total_def)
  have c2: "filter is_prod_col (columns ex_frame_bad_total) = [''energy_ptot_0_kWh'']"
    by code_simp
  have a2: "last (rows ex_frame_bad_total) ''energy_ptot_0_kWh'' = Some (Num NaN)"
    by (simp add: ex_frame_bad_total_def)
  have t2: "last (rows ex_frame_bad_total) ''total_energy_kWh'' = Some (Text ''lots'')"
    by (simp add: ex_frame_bad_total_def)
  have w4: "fetch_pv_data (ex_env\<lparr> csv := Inr ex_frame_bad_total \<rparr>) ex_app =
     (Returned (fallback_reading ex_clock),
      ex_app\<lparr> ui := ui ex_app @ [Connected, ParseError ValueError] \<rparr>)"
    using live_power_last_of_curve
      [of ex_frame_bad_total r "ex_env\<lparr> csv := Inr ex_frame_bad_total \<rparr>" ex_app] f e n2 a2 t2
    by (simp add: c2 w)
  show ?thesis
    using p cv lp w1 h0 w2 n1 c1 a1 t1 w3 n2 c2 a2 t2 w4 by blast
qed

lemma fallback_fields:
  "live_power (fallback_reading now) = Fin 0"
  "energy_today (fallback_reading now) = Fin 0"
  "ac_power (fallback_reading now) = Fin 0"
  "dc_power (fallback_reading now) = Fin 0"
  "efficiency (fallback_reading now) = Fin 0"
  "uv_index (fallback_reading now) = Fin 0"
  "total_energy (fallback_reading now) = Fin 0"
  "system_temp (fallback_reading now) = Fin 0"
  "co2_avoided (fallback_reading now) = Fin 0"
  "ambient_temp (fallback_reading now) = Fin 0"
  "curve_values (production_curve (fallback_reading now)) = replicate 24 (Fin 0)"
  "length (curve_hours (production_curve (fallback_reading now))) = 24"
  "data_timestamp (fallback_reading now) = None"
  "data_source (fallback_reading now) = None"
  by (simp_all add: fallback_reading_def)

lemma parsed_efficiency:
  assumes "parse_snapshot c = Inr r"
  shows "efficiency r = Fin 92" and "data_source r = Some ''live''"
proof -
  from parse_snapshot_Inr[OF assms] obtain df where
    d: "parse_row df (last (rows df)) = Inr r" by blast
  from parse_row_Inr[OF d] show "efficiency r = Fin 92" and "data_source r = Some ''live''"
    by blast+
qed

text \<open>
  C5 (as stated) fails: \<open>fetch_pv_data\<close> has no error result for the parse. On a file
  with a header and no data row \<open>df.iloc[-1]\<close> raises \<open>IndexError\<close>, the \<open>except\<close> branch
  shows it, and the function returns the dictionary of zeros.
\<close>

theorem short_csv_counterexample:
  "rows ex_frame_header_only = [] \<and>
   parse_snapshot (Inr ex_frame_header_only) = Inl IndexError \<and>
   fetch_pv_data (ex_env\<lparr> csv := Inr ex_frame_header_only \<rparr>) ex_app =
     (Returned (fallback_reading ex_clock),
      ex_app\<lparr> ui := ui ex_app @ [Connected, ParseError IndexError] \<rparr>)"
  by (simp add: ex_frame_header_only_def parse_snapshot_def iloc_last_def fetch_pv_data_def
      ex_env_def Let_def)

text \<open>
  C5 (amended). For every downloaded file with fewer than 2 rows (\<open>pd.read_csv\<close> raises on
  a file without a header, or returns a table without data rows) the parse raises inside
  \<open>fetch_pv_data\<close>, which catches the exception, shows it, appends nothing to the store and
  returns the all-zero dictionary with a 24-point curve of zeros; no error reaches the
  caller.
\<close>

theorem short_csv_returns_zeros:
  assumes "ftp_fault env = None"
    and "csv env = Inl e \<or> (\<exists>df. csv env = Inr df \<and> rows df = [] \<and> e = IndexError)"
  shows "parse_snapshot (csv env) = Inl e \<and>
         fetch_pv_data env a =
           (Returned (fallback_reading (wall_clock env)),
            a\<lparr> ui := ui a @ [Connected, ParseError e] \<rparr>) \<and>
         store (snd (fetch_pv_data env a)) = store a"
proof -
  have p: "parse_snapshot (csv env) = Inl e"
    using assms(2) by (auto simp add: parse_snapshot_def iloc_last_def)
  show ?thesis
    using p fetch_failed[OF assms(1) p, of a] by simp
qed

theorem short_csv_returns_zeros_witness:
  "ftp_fault (ex_env\<lparr> csv := Inr ex_frame_header_only \<rparr>) = None \<and>
   csv (ex_env\<lparr> csv := Inr ex_frame_header_only \<rparr>) = Inr ex_frame_header_only \<and>
   rows ex_frame_header_only = [] \<and>
   fst (fetch_pv_data (ex_env\<lparr> csv := Inr ex_frame_header_only \<rparr>) ex_app)
     = Returned (fallback_reading ex_clock) \<and>
   store (snd (fetch_pv_data (ex_env\<lparr> csv := Inr ex_frame_header_only \<rparr>) ex_app))
     = store ex_app \<and>
   fst (fetch_pv_data (ex_env\<lparr> csv := Inl (LibraryError ''No columns to parse from file'') \<rparr>)
          ex_app)
     = Returned (fallback_reading ex_clock)"
proof -
  let ?env = "ex_env\<lparr> csv := Inr ex_frame_header_only \<rparr>"
  let ?env2 = "ex_env\<lparr> csv := Inl (LibraryError ''No columns to parse from file'') \<rparr>"
  have f: "ftp_fault ?env = None" "ftp_fault ?env2 = None"
    by (simp_all add: ex_env_def)
  have w: "wall_clock ?env = ex_clock" "wall_clock ?env2 = ex_clock"
    by (simp_all add: ex_env_def)
  have c: "csv ?env = Inr ex_frame_header_only"
    by simp
  have n: "rows ex_frame_header_only = []"
    by (simp add: ex_frame_header_only_def)
  have h: "csv ?env = Inl IndexError \<or>
      (\<exists>df. csv ?env = Inr df \<and> rows df = [] \<and> IndexError = IndexError)"
    using n by simp
  have h2: "csv ?env2 = Inl (LibraryError ''No columns to parse from file'') \<or>
      (\<exists>df. csv ?env2 = Inr df \<and> rows df = [] \<and>
         LibraryError ''No columns to parse from file'' = IndexError)"
    by simp
  from short_csv_returns_zeros[OF f(1) h, of ex_app] short_csv_returns_zeros[OF f(2) h2, of ex_app]
  show ?thesis
    using f c n w by simp
qed

text \<open>
  C10 (as stated) fails in its last part: the dictionary returned on a parse error can be
  told from every parsed reading. A snapshot whose values are all zero parses to a reading
  with \<open>efficiency = 92.0\<close>, a \<open>data_source\<close> and a one-point curve; the dictionary returned
  for a snapshot with an unreadable cell has \<open>efficiency = 0.0\<close>, no \<open>data_source\<close> and 24
  points.
\<close>

theorem parse_failure_counterexample:
  "(case fst (fetch_pv_data (ex_env\<lparr> csv := Inr ex_frame_all_zero \<rparr>) ex_app) of
      Stopped \<Rightarrow> False
    | Returned r \<Rightarrow>
        live_power r = Fin 0 \<and> energy_today r = Fin 0 \<and> total_energy r = Fin 0 \<and>
        co2_avoided r = Fin 0 \<and> ac_power r = Fin 0 \<and> dc_power r = Fin 0 \<and>
        efficiency r = Fin 92 \<and> data_source r = Some ''live'' \<and>
        curve_values (production_curve r) = [Fin 0]) \<and>
   (case fst (fetch_pv_data (ex_env\<lparr> csv := Inr ex_frame_bad_cell \<rparr>) ex_app) of
      Stopped \<Rightarrow> False
    | Returned r \<Rightarrow>
        efficiency r = Fin 0 \<and> data_source r = None \<and>
        curve_values (production_curve r) = replicate 24 (Fin 0)) \<and>
   fst (fetch_pv_data (ex_env\<lparr> csv := Inr ex_frame_bad_cell \<rparr>) ex_app)
     \<noteq> fst (fetch_pv_data (ex_env\<lparr> csv := Inr ex_frame_all_zero \<rparr>) ex_app)"
proof -
  have z: "parse_snapshot (Inr ex_frame_all_zero) =
     Inr \<lparr> live_power = Fin 0, energy_today = Fin 0, ac_power = Fin 0, dc_power = Fin 0,
           efficiency = Fin 92, uv_index = Fin 0, total_energy = Fin 0, system_temp = Fin 0,
           co2_avoided = Fin 0, ambient_temp = Fin 0,
           production_curve = \<lparr> curve_hours = [Idx 0], curve_values = [Fin 0] \<rparr>,
           data_timestamp = Some (Chars ''2024-01-01 00:00:00''),
           data_source = Some ''live'' \<rparr>"
    by code_simp
  have b: "parse_snapshot (Inr ex_frame_bad_cell) = Inl ValueError"
    by code_simp
  have f: "ftp_fault (ex_env\<lparr> csv := c \<rparr>) = None" for c
    by (simp add: ex_env_def)
  have r1: "fst (fetch_pv_data (ex_env\<lparr> csv := Inr ex_frame_all_zero \<rparr>) ex_app) =
      Returned \<lparr> live_power = Fin 0, energy_today = Fin 0, ac_power = Fin 0, dc_power = Fin 0,
           efficiency = Fin 92, uv_index = Fin 0, total_energy = Fin 0, system_temp = Fin 0,
           co2_avoided = Fin 0, ambient_temp = Fin 0,
           production_curve = \<lparr> curve_hours = [Idx 0], curve_values = [Fin 0] \<rparr>,
           data_timestamp = Some (Chars ''2024-01-01 00:00:00''),
           data_source = Some ''live'' \<rparr>"
    using fetch_parsed[OF f, of "Inr ex_frame_all_zero"] z by simp
  have r2: "fst (fetch_pv_data (ex_env\<lparr> csv := Inr ex_frame_bad_cell \<rparr>) ex_app) =
      Returned (fallback_reading (wall_clock ex_env))"
    using fetch_failed[OF f, of "Inr ex_frame_bad_cell" ValueError ex_app] b by simp
  show ?thesis
    unfolding r1 r2 by (simp add: fallback_fields) (simp add: fallback_reading_def)
qed

text \<open>
  C10 (amended). For every input on which parsing the downloaded CSV raises, whatever the
  exception, \<open>fetch_pv_data\<close> shows the error and returns the same dictionary: the ten
  numeric fields 0.0 and a 24-point curve of zeros, with no error value in it; it appends
  nothing to the time-series store. The dictionary differs from every parsed reading: a
  parsed reading has \<open>efficiency = 92.0\<close> and a \<open>data_source\<close>, the dictionary has
  \<open>efficiency = 0.0\<close> and neither \<open>data_timestamp\<close> nor \<open>data_source\<close>.
\<close>

theorem parse_failure_returns_zeros:
  assumes "ftp_fault env = None" and "parse_snapshot (csv env) = Inl e"
  shows "(\<exists>r. fst (fetch_pv_data env a) = Returned r \<and> r = fallback_reading (wall_clock env) \<and>
            live_power r = Fin 0 \<and> energy_today r = Fin 0 \<and> ac_power r = Fin 0 \<and>
            dc_power r = Fin 0 \<and> efficiency r = Fin 0 \<and> uv_index r = Fin 0 \<and>
            total_energy r = Fin 0 \<and> system_temp r = Fin 0 \<and> co2_avoided r = Fin 0 \<and>
            ambient_temp r = Fin 0 \<and>
            curve_values (production_curve r) = replicate 24 (Fin 0) \<and>
            length (curve_hours (production_curve r)) = 24 \<and>
            data_timestamp r = None \<and> data_source r = None) \<and>
         store (snd (fetch_pv_data env a)) = store a \<and>
         ui (snd (fetch_pv_data env a)) = ui a @ [Connected, ParseError e] \<and>
         (\<forall>c r'. parse_snapshot c = Inr r' \<longrightarrow>
            efficiency r' = Fin 92 \<and> data_source r' = Some ''live'' \<and>
            Returned r' \<noteq> fst (fetch_pv_data env a))"
proof -
  note f = fetch_failed[OF assms, of a]
  have d: "Returned r' \<noteq> fst (fetch_pv_data env a)"
    if "parse_snapshot c = Inr r'" for c r'
  proof
    assume "Returned r' = fst (fetch_pv_data env a)"
    then have "efficiency r' = Fin 0"
      using f by (simp add: fallback_fields)
    then show False
      using parsed_efficiency(1)[OF that] by simp
  qed
  show ?thesis
    using f d parsed_efficiency by (simp add: fallback_fields)
qed

theorem parse_failure_returns_zeros_witness:
  "ftp_fault (ex_env\<lparr> csv := Inr ex_frame_bad_cell \<rparr>) = None \<and>
   parse_snapshot (csv (ex_env\<lparr> csv := Inr ex_frame_bad_cell \<rparr>)) = Inl ValueError \<and>
   fst (fetch_pv_data (ex_env\<lparr> csv := Inr ex_frame_bad_cell \<rparr>) ex_app)
     = Returned (fallback_reading ex_clock) \<and>
   store (snd (fetch_pv_data (ex_env\<lparr> csv := Inr ex_frame_bad_cell \<rparr>) ex_app)) = store ex_app \<and>
   ui (snd (fetch_pv_data (ex_env\<lparr> csv := Inr ex_frame_bad_cell \<rparr>) ex_app))
     = ui ex_app @ [Connected, ParseError ValueError]"
proof -
  let ?env = "ex_env\<lparr> csv := Inr ex_frame_bad_cell \<rparr>"
  have f: "ftp_fault ?env = None"
    by (simp add: ex_env_def)
  have b: "parse_snapshot (Inr ex_frame_bad_cell) = Inl ValueError"
    by code_simp
  then have p: "parse_snapshot (csv ?env) = Inl ValueError"
    by simp
  have w: "wall_clock ?env = ex_clock"
    by (simp add: ex_env_def)
  from parse_failure_returns_zeros[OF f p, of ex_app] f p w
  show ?thesis
    by auto
qed

section \<open>Derived fields\<close>

lemma float_0_92_value: "float_0_92 = Fin (8286623314361713 / 9007199254740992)"
  by code_simp

lemma float_1_02_value: "float_1_02 = Fin (2296835809958953 / 2251799813685248)"
  by code_simp

lemma fl_zero: "fl 0 = Fin 0"
  by (simp add: fl_def)

lemma derived_fields_row:
  assumes "parse_row df row = Inr r"
  shows "ac_power r = fmul (live_power r) float_0_92"
    and "dc_power r = fmul (live_power r) float_1_02"
    and "co2_avoided r = fmul (total_energy r) float_0_366"
proof -
  from parse_row_Inr[OF assms] obtain tot where
    a: "ac_power r = (if truthy (live_power r) then fmul (live_power r) float_0_92 else Fin 0)"
    and d: "dc_power r = (if truthy (live_power r) then fmul (live_power r) float_1_02 else Fin 0)"
    and c: "co2_avoided r = fmul tot float_0_366"
    and t: "total_energy r = tot"
    by blast
  show "ac_power r = fmul (live_power r) float_0_92"
  proof (cases "truthy (live_power r)")
    case True
    with a show ?thesis by simp
  next
    case False
    then have "live_power r = Fin 0" by (simp add: truthy_def)
    with a show ?thesis by (simp add: truthy_def float_0_92_value fl_zero)
  qed
  show "dc_power r = fmul (live_power r) float_1_02"
  proof (cases "truthy (live_power r)")
    case True
    with d show ?thesis by simp
  next
    case False
    then have "live_power r = Fin 0" by (simp add: truthy_def)
    with d show ?thesis by (simp add: truthy_def float_1_02_value fl_zero)
  qed
  show "co2_avoided r = fmul (total_energy r) float_0_366"
    using c t by simp
qed

lemma product_5_0_92: "fmul (Fin 5) float_0_92 = Fin (5179139571476071 / 1125899906842624)"
  by code_simp

lemma product_5_1_02: "fmul (Fin 5) float_1_02 = float_5_1"
  by code_simp

lemma product_100_0_366: "fmul (Fin 100) float_0_366 = float_36_6"
  by code_simp

lemma float_4_6_value: "float_4_6 = Fin (2589569785738035 / 562949953421312)"
  by code_simp

lemma product_not_4_6: "Fin (5179139571476071 / 1125899906842624) \<noteq> float_4_6"
  by code_simp

text \<open>
  C2 (as stated) fails in one of its three examples. The products are binary64 products:
  for the snapshot whose last per-point value is \<open>5.0\<close>, \<open>ac_power\<close> is
  \<open>5179139571476071 / 2 ^ 50\<close> (printed \<open>4.6000000000000005\<close>), one unit in the last place
  above the float \<open>4.6\<close>, which is \<open>5179139571476070 / 2 ^ 50\<close>.
\<close>

theorem derived_fields_counterexample:
  "(case fst (fetch_pv_data ex_env ex_app) of
      Stopped \<Rightarrow> False
    | Returned r \<Rightarrow>
        live_power r = Fin 5 \<and>
        ac_power r = Fin (5179139571476071 / 1125899906842624) \<and>
        float_4_6 = Fin (2589569785738035 / 562949953421312) \<and>
        ac_power r \<noteq> float_4_6)"
proof -
  have f: "ftp_fault ex_env = None" and c: "csv ex_env = Inr ex_frame"
    by (simp_all add: ex_env_def)
  note p = ex_frame_parsed[folded c]
  show ?thesis
    unfolding fetch_parsed[OF f p]
    using product_not_4_6 float_4_6_value by simp
qed

text \<open>
  C2 (amended). For every successfully parsed reading, \<open>ac_power = live_power * 0.92\<close>,
  \<open>dc_power = live_power * 1.02\<close> and \<open>co2_avoided = total_energy * 0.366\<close>, each a
  binary64 product. In particular \<open>total_energy = 100.0\<close> gives \<open>co2_avoided = 36.6\<close>
  exactly, and \<open>live_power = 5.0\<close> gives \<open>dc_power = 5.1\<close> and
  \<open>ac_power = 4.6000000000000005\<close>, the float next above \<open>4.6\<close>.
\<close>

theorem derived_fields:
  assumes "parse_snapshot c = Inr r"
  shows "ac_power r = fmul (live_power r) float_0_92 \<and>
         dc_power r = fmul (live_power r) float_1_02 \<and>
         co2_avoided r = fmul (total_energy r) float_0_366 \<and>
         (total_energy r = Fin 100 \<longrightarrow> co2_avoided r = float_36_6) \<and>
         (live_power r = Fin 5 \<longrightarrow>
            dc_power r = float_5_1 \<and>
            ac_power r = Fin (5179139571476071 / 1125899906842624) \<and>
            ac_power r \<noteq> float_4_6)"
proof -
  from parse_snapshot_Inr[OF assms] obtain df where
    d: "parse_row df (last (rows df)) = Inr r" by blast
  note e = derived_fields_row[OF d]
  have 1: "co2_avoided r = float_36_6" if "total_energy r = Fin 100"
    using e(3) that product_100_0_366 by simp
  have 2: "dc_power r = float_5_1" if "live_power r = Fin 5"
    using e(2) that product_5_1_02 by simp
  have 3: "ac_power r = Fin (5179139571476071 / 1125899906842624)" if "live_power r = Fin 5"
    using e(1) that product_5_0_92 by simp
  have 4: "ac_power r \<noteq> float_4_6" if "live_power r = Fin 5"
    using 3[OF that] product_not_4_6 by simp
  show ?thesis
    using e 1 2 3 4 by blast
qed

theorem derived_fields_witness:
  "(\<exists>r. parse_snapshot (Inr ex_frame) = Inr r \<and>
        live_power r = Fin 5 \<and> total_energy r = Fin 100 \<and>
        co2_avoided r = float_36_6 \<and>
        dc_power r = float_5_1 \<and>
        ac_power r = Fin (5179139571476071 / 1125899906842624) \<and>
        ac_power r = fmul (live_power r) float_0_92)"
proof -
  obtain r where p: "parse_snapshot (Inr ex_frame) = Inr r" and l: "live_power r = Fin 5"
    and t: "total_energy r = Fin 100"
    using ex_frame_parsed by simp
  from derived_fields[OF p] p l t show ?thesis
    by blast
qed

section \<open>Order of the production curve\<close>

lemma sentinel_after_small:
  assumes "sorted (map f xs)" and "i < length xs" and "j < length xs"
    and "f (xs ! j) = s" and "f (xs ! i) < s"
  shows "i < j"
proof (rule ccontr)
  assume "\<not> i < j"
  then have "j \<le> i" by simp
  then have "map f xs ! j \<le> map f xs ! i"
    using assms(1,2) by (simp add: sorted_iff_nth_mono)
  then show False
    using assms(2-5) by simp
qed

text \<open>
  C3 (as stated) fails: the sentinel is the number \<open>10**9\<close>, and a column whose parsed
  index is larger sorts after a column whose index cannot be parsed. With the columns
  \<open>energy_ptot_x_kWh\<close> and \<open>energy_ptot_2000000000_kWh\<close> the unparsable one comes first, and
  the curve and \<open>live_power\<close> follow that order.
\<close>

theorem sentinel_not_last_counterexample:
  "ptot_try ''energy_ptot_x_kWh'' = None \<and>
   ptot_try ''energy_ptot_2000000000_kWh'' = Some 2000000000 \<and>
   prod_cols ex_frame_large_index = [''energy_ptot_x_kWh'', ''energy_ptot_2000000000_kWh''] \<and>
   last (prod_cols ex_frame_large_index) \<noteq> ''energy_ptot_x_kWh'' \<and>
   map_sum id (\<lambda>r. curve_values (production_curve r)) (parse_snapshot (Inr ex_frame_large_index))
     = Inr [Fin 7, Fin 9]"
  by code_simp

text \<open>
  C3 (amended). For every set of per-point energy columns, the parser orders the columns,
  and with them the production curve, ascending by the integer index embedded in each
  column name, columns of equal index staying in header order (indices \<open>[3, 1, 10, 2]\<close>
  give the order \<open>[1, 2, 3, 10]\<close>). A column whose index cannot be parsed raises no error:
  it is given the index \<open>10**9\<close> and so sorts after every column whose index is below
  \<open>10**9\<close> (not after a column whose index is larger).
\<close>

theorem curve_sorted_by_index:
  "sorted (map ptot_index (prod_cols df)) \<and>
   mset (prod_cols df) = mset (filter is_prod_col (columns df)) \<and>
   (\<forall>k. filter (\<lambda>c. ptot_index c = k) (prod_cols df) =
        filter (\<lambda>c. ptot_index c = k) (filter is_prod_col (columns df))) \<and>
   (ptot_try c = None \<longrightarrow> ptot_index c = 10 ^ 9) \<and>
   (\<forall>i j. i < length (prod_cols df) \<and> j < length (prod_cols df) \<and>
          ptot_try (prod_cols df ! j) = None \<and> ptot_index (prod_cols df ! i) < 10 ^ 9
          \<longrightarrow> i < j) \<and>
   (parse_snapshot (Inr df) = Inr r \<longrightarrow>
      map Inr (curve_values (production_curve r)) =
        map (\<lambda>c. py_float (the (last (rows df) c)))
          (filter (\<lambda>c. py_notna (the (last (rows df) c))) (prod_cols df)))"
proof (intro conjI allI impI)
  show s: "sorted (map ptot_index (prod_cols df))"
    by (simp add: prod_cols_def)
  show "mset (prod_cols df) = mset (filter is_prod_col (columns df))"
    by (simp add: prod_cols_def)
  show "filter (\<lambda>c. ptot_index c = k) (prod_cols df) =
        filter (\<lambda>c. ptot_index c = k) (filter is_prod_col (columns df))" for k
    by (simp add: prod_cols_def sort_key_stable)
  show "ptot_index c = 10 ^ 9" if "ptot_try c = None"
    using that by (simp add: ptot_index_def)
  show "i < j"
    if "i < length (prod_cols df) \<and> j < length (prod_cols df) \<and>
          ptot_try (prod_cols df ! j) = None \<and> ptot_index (prod_cols df ! i) < 10 ^ 9" for i j
  proof -
    have "ptot_index (prod_cols df ! j) = 10 ^ 9"
      using that by (simp add: ptot_index_def)
    then show ?thesis
      using sentinel_after_small[OF s, of i j "10 ^ 9"] that by simp
  qed
  show "map Inr (curve_values (production_curve r)) =
        map (\<lambda>c. py_float (the (last (rows df) c)))
          (filter (\<lambda>c. py_notna (the (last (rows df) c))) (prod_cols df))"
    if p: "parse_snapshot (Inr df) = Inr r"
  proof -
    from parse_snapshot_Inr[OF p] have d: "parse_row df (last (rows df)) = Inr r"
      by auto
    from parse_row_Inr[OF d] obtain vs where
      "production_values (last (rows df)) (prod_cols df) = Inr vs"
      "production_curve r = \<lparr> curve_hours = map Idx [0..<length vs], curve_values = vs \<rparr>"
      by blast
    then show ?thesis
      using production_values_order by simp
  qed
qed

theorem curve_sorted_by_index_witness:
  "map ptot_try (filter is_prod_col (columns ex_frame_order))
     = [Some 3, None, Some 1, Some 10, Some 2] \<and>
   prod_cols ex_frame_order =
     [''energy_ptot_1_kWh'', ''energy_ptot_2_kWh'', ''energy_ptot_3_kWh'', ''energy_ptot_10_kWh'',
      ''energy_ptot_x_kWh''] \<and>
   ptot_index ''energy_ptot_x_kWh'' = 10 ^ 9 \<and>
   (4::nat) < length (prod_cols ex_frame_order) \<and>
   ptot_try (prod_cols ex_frame_order ! 4) = None \<and>
   ptot_index (prod_cols ex_frame_order ! 3) < 10 ^ 9 \<and>
   (3::nat) < 4 \<and>
   map ptot_try ex_cols_spaces = [Some 7, Some 5, None, Some 9] \<and>
   sort_key ptot_index ex_cols_spaces =
     [''energy_ptot_'' @ [CHR 0xA0] @ ''5_kWh'', ''energy_ptot_7_kWh'', ''energy_ptot_9_kWh'',
      ''energy_ptot_'' @ [CHR 0x1C] @ ''3_kWh''] \<and>
   (\<exists>r. parse_snapshot (Inr ex_frame_order) = Inr r \<and>
        curve_values (production_curve r) = [Fin 10, Fin 20, Fin 30, Fin 100, Fin 7] \<and>
        map Inr (curve_values (production_curve r)) =
          map (\<lambda>c. py_float (the (last (rows ex_frame_order) c)))
            (filter (\<lambda>c. py_notna (the (last (rows ex_frame_order) c))) (prod_cols ex_frame_order)))"
proof -
  have t: "map ptot_try (filter is_prod_col (columns ex_frame_order))
     = [Some 3, None, Some 1, Some 10, Some 2]"
    by code_simp
  have o: "prod_cols ex_frame_order =
     [''energy_ptot_1_kWh'', ''energy_ptot_2_kWh'', ''energy_ptot_3_kWh'', ''energy_ptot_10_kWh'',
      ''energy_ptot_x_kWh'']"
    by code_simp
  have x: "ptot_try ''energy_ptot_x_kWh'' = None"
    by code_simp
  have i3: "ptot_index ''energy_ptot_10_kWh'' < 10 ^ 9"
    by code_simp
  have v: "map_sum id (\<lambda>r. curve_values (production_curve r)) (parse_snapshot (Inr ex_frame_order))
     = Inr [Fin 10, Fin 20, Fin 30, Fin 100, Fin 7]"
    by code_simp
  then obtain r where p: "parse_snapshot (Inr ex_frame_order) = Inr r"
    and cv: "curve_values (production_curve r) = [Fin 10, Fin 20, Fin 30, Fin 100, Fin 7]"
    by (cases "parse_snapshot (Inr ex_frame_order)") auto
  note th = curve_sorted_by_index[of ex_frame_order "''energy_ptot_x_kWh''" r]
  have s: "ptot_index ''energy_ptot_x_kWh'' = 10 ^ 9"
    using th x by blast
  have c: "map Inr (curve_values (production_curve r)) =
          map (\<lambda>c. py_float (the (last (rows ex_frame_order) c)))
            (filter (\<lambda>c. py_notna (the (last (rows ex_frame_order) c))) (prod_cols ex_frame_order))"
    using th p by blast
  have l: "(4::nat) < length (prod_cols ex_frame_order)"
    "ptot_try (prod_cols ex_frame_order ! 4) = None"
    "ptot_index (prod_cols ex_frame_order ! 3) < 10 ^ 9"
    using x i3 by (simp_all add: o)
  have n: "(3::nat) < 4"
    by simp
  have w1: "map ptot_try ex_cols_spaces = [Some 7, Some 5, None, Some 9]"
    by code_simp
  have w2: "sort_key ptot_index ex_cols_spaces =
     [''energy_ptot_'' @ [CHR 0xA0] @ ''5_kWh'', ''energy_ptot_7_kWh'', ''energy_ptot_9_kWh'',
      ''energy_ptot_'' @ [CHR 0x1C] @ ''3_kWh'']"
    by code_simp
  show ?thesis
    using t o s l n w1 w2 p cv c by blast
qed

end
